theory Spec2Isabelle
  imports Complex_Main "HOL-Library.Monad_Syntax" "HOL-Library.Char_ord" "HOL-Library.List_Lexorder"
begin

section \<open>Tables\<close>

text \<open>
  The notebook \<^verbatim>\<open>baseball_analysis.ipynb\<close> is a straight line of pandas and
  scikit-learn calls. A table cell is a missing value, a number or a string. \<open>Int64\<close> is
  a value of an int64 column. The other numbers are float64 values: \<open>Num\<close> a finite one
  (\<open>Num 0\<close> is the positive zero), \<open>NegZero\<close> the negative zero, and the two
  infinities; the not-a-number value is the missing value, as pandas has it. The flags
  and labels that the notebook creates and never computes with are written \<open>Num\<close>.
\<close>

datatype cell = NaN | PosInf | NegInf | NegZero | Int64 int | Num real | Str string

text \<open>\<^verbatim>\<open>isna\<close>: the infinities are not missing.\<close>

definition isna :: "cell \<Rightarrow> bool" where
  "isna x = (x = NaN)"

text \<open>
  A DataFrame: the column labels in order, the row labels (the index) in order, and the
  cell at a row label and a column label. A Series: the row labels with their values, in
  order.
\<close>

record frame =
  columns :: "string list"
  index :: "nat list"
  val :: "nat \<Rightarrow> string \<Rightarrow> cell"

type_synonym series = "(nat \<times> cell) list"

text \<open>
  A parsed CSV file: the header and the rows of cells. \<^verbatim>\<open>read_csv\<close> numbers the
  rows from 0 (a RangeIndex); a row shorter than the header is filled with missing values.
  \<^verbatim>\<open>to_csv(index=False)\<close> writes the columns and the rows, without the row labels.
\<close>

record csv =
  header :: "string list"
  body :: "cell list list"

definition cell_of_row :: "string list \<Rightarrow> cell list \<Rightarrow> string \<Rightarrow> cell" where
  "cell_of_row hdr r c = (case map_of (zip hdr r) c of Some v \<Rightarrow> v | None \<Rightarrow> NaN)"

definition read_csv :: "csv \<Rightarrow> frame" where
  "read_csv f =
     \<lparr>columns = header f,
      index = [0..<length (body f)],
      val = (\<lambda>i c. if i < length (body f) then cell_of_row (header f) (body f ! i) c else NaN)\<rparr>"

definition row_values :: "frame \<Rightarrow> nat \<Rightarrow> cell list" where
  "row_values df i = map (val df i) (columns df)"

definition to_csv :: "frame \<Rightarrow> csv" where
  "to_csv df = \<lparr>header = columns df, body = map (row_values df) (index df)\<rparr>"

text \<open>
  \<^verbatim>\<open>pd.concat([a, b], ignore_index=True)\<close>: the rows of \<open>a\<close>, then the rows of
  \<open>b\<close>, renumbered from 0; the columns are those of \<open>a\<close>, then the columns only
  \<open>b\<close> has, and a cell of a column that a row's table lacks is missing.
\<close>

definition concat_ignore_index :: "frame \<Rightarrow> frame \<Rightarrow> frame" where
  "concat_ignore_index a b =
     \<lparr>columns = columns a @ filter (\<lambda>c. c \<notin> set (columns a)) (columns b),
      index = [0..<length (index a) + length (index b)],
      val = (\<lambda>i c.
        if i < length (index a) then
          (if c \<in> set (columns a) then val a (index a ! i) c else NaN)
        else if i < length (index a) + length (index b) then
          (if c \<in> set (columns b) then val b (index b ! (i - length (index a))) c else NaN)
        else NaN)\<rparr>"

text \<open>
  \<^verbatim>\<open>df.isna().any(axis=1)\<close> and \<^verbatim>\<open>df.dropna(axis=0)\<close>: a row is dropped when
  any of its cells is missing; the rows that stay keep their labels and their cells.
\<close>

definition isna_any :: "frame \<Rightarrow> nat \<Rightarrow> bool" where
  "isna_any df i = list_ex (\<lambda>c. isna (val df i c)) (columns df)"

definition dropna :: "frame \<Rightarrow> frame" where
  "dropna df = df\<lparr>index := filter (\<lambda>i. \<not> isna_any df i) (index df)\<rparr>"

text \<open>
  \<^verbatim>\<open>df[c]\<close> raises KeyError (here \<open>None\<close>) for a column the table lacks.
  \<^verbatim>\<open>df[c] = x\<close> overwrites the column \<open>c\<close> or appends it as the last column:
  a scalar fills every row, a Series is aligned by row label, an array is taken by
  position and must have one entry per row (ValueError otherwise).
\<close>

definition getcol :: "frame \<Rightarrow> string \<Rightarrow> series option" where
  "getcol df c =
     (if c \<in> set (columns df) then Some (map (\<lambda>i. (i, val df i c)) (index df)) else None)"

definition with_column :: "string list \<Rightarrow> string \<Rightarrow> string list" where
  "with_column cs c = (if c \<in> set cs then cs else cs @ [c])"

definition setcol_scalar :: "frame \<Rightarrow> string \<Rightarrow> cell \<Rightarrow> frame" where
  "setcol_scalar df c v =
     df\<lparr>columns := with_column (columns df) c,
        val := (\<lambda>i c'. if c' = c then v else val df i c')\<rparr>"

definition series_at :: "series \<Rightarrow> nat \<Rightarrow> cell" where
  "series_at s i = (case map_of s i of Some v \<Rightarrow> v | None \<Rightarrow> NaN)"

definition setcol_series :: "frame \<Rightarrow> string \<Rightarrow> series \<Rightarrow> frame" where
  "setcol_series df c s =
     df\<lparr>columns := with_column (columns df) c,
        val := (\<lambda>i c'. if c' = c then series_at s i else val df i c')\<rparr>"

definition position :: "nat list \<Rightarrow> nat \<Rightarrow> nat" where
  "position idx i = length (takeWhile (\<lambda>j. j \<noteq> i) idx)"

definition setcol_array :: "frame \<Rightarrow> string \<Rightarrow> cell list \<Rightarrow> frame option" where
  "setcol_array df c xs =
     (if length xs = length (index df) then
        Some (df\<lparr>columns := with_column (columns df) c,
                 val := (\<lambda>i c'. if c' = c then xs ! position (index df) i else val df i c')\<rparr>)
      else None)"

text \<open>\<^verbatim>\<open>s.apply(f)\<close>: \<open>f\<close> on every value, the labels kept.\<close>

definition apply_series :: "(cell \<Rightarrow> cell) \<Rightarrow> series \<Rightarrow> series" where
  "apply_series f s = map (\<lambda>(i, v). (i, f v)) s"

section \<open>Loading and cleaning\<close>

text \<open>
  The training table: seasons 1 and 2, concatenated and renumbered, without the rows that
  have a missing value.
\<close>

definition load_train_raw :: "csv \<Rightarrow> csv \<Rightarrow> frame" where
  "load_train_raw year1 year2 =
     (let data_season1 = read_csv year1;
          data_season2 = read_csv year2
      in concat_ignore_index data_season1 data_season2)"

definition load_train :: "csv \<Rightarrow> csv \<Rightarrow> frame" where
  "load_train year1 year2 =
     (let data_train = load_train_raw year1 year2;
          data_train = dropna data_train
      in data_train)"

text \<open>
  Season 3: every row gets the default probability 0.5, then the rows without a missing
  value are copied into the working table. The first component is the full table, the
  second the clean copy.
\<close>

definition clean_season3 :: "frame \<Rightarrow> frame \<times> frame" where
  "clean_season3 data_season3 =
     (let nan_rows = map (\<lambda>i. (i, isna_any data_season3 i)) (index data_season3);
          data_season3 = setcol_scalar data_season3 ''SwingProbability'' (Num (1 / 2));
          data_season3_clean = dropna data_season3
      in (data_season3, data_season3_clean))"

section \<open>The swing label\<close>

definition swing_events :: "cell list" where
  "swing_events =
     [Str ''foul'', Str ''hit_into_play'', Str ''swinging_strike'', Str ''foul_tip'',
      Str ''foul_bunt'', Str ''swinging_strike_blocked'', Str ''missed_bunt'',
      Str ''bunt_foul_tip'', Str ''foul_pitchout'']"

text \<open>\<^verbatim>\<open>lambda x: 1 if x in swing_events else 0\<close>\<close>

definition swing_of :: "cell \<Rightarrow> cell" where
  "swing_of x = (if x \<in> set swing_events then Num 1 else Num 0)"

definition add_swing :: "frame \<Rightarrow> frame option" where
  "add_swing data_train =
     do {
       description \<leftarrow> getcol data_train ''description'';
       Some (setcol_series data_train ''swing'' (apply_series swing_of description))
     }"

section \<open>Feature engineering\<close>

text \<open>int64 arithmetic wraps around.\<close>

definition wrap64 :: "int \<Rightarrow> int" where
  "wrap64 k = (k + 2 ^ 63) mod 2 ^ 64 - 2 ^ 63"

text \<open>
  The float64 value of a real number: round to nearest, ties to even. \<open>exponent n x\<close>
  is the binary exponent of a positive \<open>x\<close>, found by doubling or halving at most \<open>n\<close>
  times; 1100 steps reach every exponent that matters, since a number of exponent 1024
  or more overflows to an infinity and one of exponent below -1076 rounds to a zero. In
  between, the number is rounded to a multiple of the spacing \<open>q\<close> of the doubles of its
  binade (of the subnormal doubles, when its exponent is below -1022).
\<close>

definition pow2 :: "int \<Rightarrow> real" where
  "pow2 k = (if 0 \<le> k then 2 ^ nat k else 1 / 2 ^ nat (- k))"

fun exponent :: "nat \<Rightarrow> real \<Rightarrow> int" where
  "exponent 0 x = 0"
| "exponent (Suc n) x =
     (if x < 1 then exponent n (2 * x) - 1
      else if 2 \<le> x then exponent n (x / 2) + 1
      else 0)"

definition round_half_even :: "real \<Rightarrow> int" where
  "round_half_even r =
     (let f = \<lfloor>r\<rfloor>; d = r - of_int f
      in if d < 1 / 2 then f else if 1 / 2 < d then f + 1 else if even f then f else f + 1)"

definition inf_of :: "bool \<Rightarrow> cell" where
  "inf_of negative = (if negative then NegInf else PosInf)"

definition zero_of :: "bool \<Rightarrow> cell" where
  "zero_of negative = (if negative then NegZero else Num 0)"

definition float64 :: "real \<Rightarrow> cell" where
  "float64 x =
     (if x = 0 then Num 0
      else
        (let e0 = exponent 1100 \<bar>x\<bar>
         in if 1024 \<le> e0 then inf_of (x < 0)
            else if e0 < - 1076 then zero_of (x < 0)
            else
              (let e = max e0 (- 1022);
                   q = pow2 (e - 52);
                   m = round_half_even (\<bar>x\<bar> / q)
               in if e = 1023 \<and> m = 2 ^ 53 then inf_of (x < 0)
                  else if m = 0 then zero_of (x < 0)
                  else Num (if x < 0 then - (of_int m * q) else of_int m * q))))"

text \<open>
  Float arithmetic on float64 cells, with the special values of IEEE 754. An int64
  operand of a float operation is converted first.
\<close>

definition to_float :: "cell \<Rightarrow> cell" where
  "to_float x = (case x of Int64 k \<Rightarrow> float64 (of_int k) | _ \<Rightarrow> x)"

fun fval :: "cell \<Rightarrow> real" where
  "fval (Num r) = r"
| "fval x = 0"

fun sign_bit :: "cell \<Rightarrow> bool" where
  "sign_bit NegInf = True"
| "sign_bit NegZero = True"
| "sign_bit (Num r) = (r < 0)"
| "sign_bit x = False"

definition is_inf :: "cell \<Rightarrow> bool" where
  "is_inf x = (x = PosInf \<or> x = NegInf)"

definition float_sub :: "cell \<Rightarrow> cell \<Rightarrow> cell" where
  "float_sub x y =
     (if x = NaN \<or> y = NaN then NaN
      else if x = PosInf then (if y = PosInf then NaN else PosInf)
      else if x = NegInf then (if y = NegInf then NaN else NegInf)
      else if y = PosInf then NegInf
      else if y = NegInf then PosInf
      else if x = NegZero \<and> y = Num 0 then NegZero
      else float64 (fval x - fval y))"

definition float_div :: "cell \<Rightarrow> cell \<Rightarrow> cell" where
  "float_div x y =
     (if x = NaN \<or> y = NaN then NaN
      else if is_inf x then (if is_inf y then NaN else inf_of (sign_bit x \<noteq> sign_bit y))
      else if is_inf y then zero_of (sign_bit x \<noteq> sign_bit y)
      else if fval y = 0 then (if fval x = 0 then NaN else inf_of (sign_bit x \<noteq> sign_bit y))
      else if fval x = 0 then zero_of (sign_bit x \<noteq> sign_bit y)
      else float64 (fval x / fval y))"

text \<open>
  The operators \<^verbatim>\<open>-\<close> and \<^verbatim>\<open>/\<close> of two columns, element by element. A string
  operand raises TypeError (\<open>None\<close>). Two int64 operands are subtracted in int64;
  every other subtraction, and every division, is a float operation. Division by zero
  raises nothing: it gives an infinity, or the not-a-number value for \<open>0 / 0\<close>.
\<close>

fun cell_sub :: "cell \<Rightarrow> cell \<Rightarrow> cell option" where
  "cell_sub (Str a) y = None"
| "cell_sub x (Str b) = None"
| "cell_sub (Int64 a) (Int64 b) = Some (Int64 (wrap64 (a - b)))"
| "cell_sub x y = Some (float_sub (to_float x) (to_float y))"

fun cell_div :: "cell \<Rightarrow> cell \<Rightarrow> cell option" where
  "cell_div (Str a) y = None"
| "cell_div x (Str b) = None"
| "cell_div x y = Some (float_div (to_float x) (to_float y))"



text \<open>
  A binary operation on two Series of one table: the labels of the left operand, the
  right operand read at the same label.
\<close>

definition series_binop ::
  "(cell \<Rightarrow> cell \<Rightarrow> cell option) \<Rightarrow> series \<Rightarrow> series \<Rightarrow> series option" where
  "series_binop f s t = those (map (\<lambda>(i, a). map_option (Pair i) (f a (series_at t i))) s)"

text \<open>
  \<^verbatim>\<open>(df['plate_z'] - df['sz_bot']) / (df['sz_top'] - df['sz_bot'])\<close>, the same
  expression on the training table and on the clean copy of season 3.
\<close>

definition relative_pitch_height :: "frame \<Rightarrow> series option" where
  "relative_pitch_height df =
     do {
       plate_z \<leftarrow> getcol df ''plate_z'';
       sz_bot \<leftarrow> getcol df ''sz_bot'';
       above \<leftarrow> series_binop cell_sub plate_z sz_bot;
       sz_top \<leftarrow> getcol df ''sz_top'';
       sz_bot \<leftarrow> getcol df ''sz_bot'';
       height \<leftarrow> series_binop cell_sub sz_top sz_bot;
       series_binop cell_div above height
     }"

definition add_relative_pitch_height :: "frame \<Rightarrow> frame option" where
  "add_relative_pitch_height df =
     do {
       s \<leftarrow> relative_pitch_height df;
       Some (setcol_series df ''relative_pitch_height'' s)
     }"


definition features :: "string list" where
  "features =
     [''release_speed'', ''plate_x'', ''stand'', ''p_throws'', ''pfx_x'', ''pfx_z'',
      ''balls'', ''strikes'', ''pitch_type'', ''relative_pitch_height'']"

text \<open>\<^verbatim>\<open>df[cols]\<close>: KeyError when a column is absent.\<close>

definition select_columns :: "frame \<Rightarrow> string list \<Rightarrow> frame option" where
  "select_columns df cs = (if set cs \<subseteq> set (columns df) then Some (df\<lparr>columns := cs\<rparr>) else None)"

text \<open>
  \<^verbatim>\<open>pd.get_dummies(df, drop_first=True)\<close>. The columns that hold strings are
  encoded, the others are kept and come first. An encoded column \<open>c\<close> gives one
  indicator column \<open>c_l\<close> for each of its levels \<open>l\<close> in sorted order, except the
  first level.
\<close>

fun is_str :: "cell \<Rightarrow> bool" where
  "is_str (Str s) = True"
| "is_str x = False"

fun str_of :: "cell \<Rightarrow> string list" where
  "str_of (Str s) = [s]"
| "str_of x = []"

definition is_object :: "frame \<Rightarrow> string \<Rightarrow> bool" where
  "is_object df c = list_ex (\<lambda>i. is_str (val df i c)) (index df)"

definition levels :: "frame \<Rightarrow> string \<Rightarrow> string list" where
  "levels df c = sort (remdups (concat (map (\<lambda>i. str_of (val df i c)) (index df))))"

definition dummy_columns :: "frame \<Rightarrow> string \<Rightarrow> (string \<times> string \<times> string) list" where
  "dummy_columns df c = map (\<lambda>l. (c @ ''_'' @ l, c, l)) (tl (levels df c))"

definition get_dummies :: "frame \<Rightarrow> frame" where
  "get_dummies df =
     (let plain = filter (\<lambda>c. \<not> is_object df c) (columns df);
          dummies = concat (map (dummy_columns df) (filter (is_object df) (columns df)))
      in \<lparr>columns = plain @ map fst dummies,
          index = index df,
          val = (\<lambda>i name.
            if name \<in> set plain then val df i name
            else (case map_of dummies name of
                    Some (c, l) \<Rightarrow> if val df i c = Str l then Num 1 else Num 0
                  | None \<Rightarrow> NaN))\<rparr>)"

text \<open>
  \<^verbatim>\<open>df.reindex(columns=cols, fill_value=v)\<close>: the result has the columns \<open>cols\<close>; a
  column the table has is taken from it, any other is filled with \<open>v\<close>. pandas raises
  ValueError when the table's own column labels are not distinct.
\<close>

definition reindex_columns :: "frame \<Rightarrow> string list \<Rightarrow> cell \<Rightarrow> frame option" where
  "reindex_columns df cols fill_value =
     (if distinct (columns df) then
        Some \<lparr>columns = cols,
              index = index df,
              val = (\<lambda>i c. if c \<in> set (columns df) then val df i c else fill_value)\<rparr>
      else None)"

definition encode_train :: "frame \<Rightarrow> frame option" where
  "encode_train data_train = map_option get_dummies (select_columns data_train features)"

definition encode_test :: "frame \<Rightarrow> frame \<Rightarrow> frame option" where
  "encode_test X_train data_season3_clean =
     do {
       X_test \<leftarrow> map_option get_dummies (select_columns data_season3_clean features);
       reindex_columns X_test (columns X_train) (Num 0)
     }"

section \<open>The libraries\<close>

text \<open>
  What the notebook calls and does not define is a parameter: the variance inflation
  factor of statsmodels, NumPy's seeded generator and its permutation, and of
  scikit-learn the cross-validated ROC-AUC scores of a random forest with given
  \<open>(n_estimators, max_depth)\<close>, the fit of such a forest, the probability of class 1
  that a fitted forest gives a feature row, and the ROC-AUC score. \<open>'g\<close> is the state
  of a random generator, \<open>'m\<close> a fitted model. The forest is created without a seed, so
  fitting draws from the global generator and advances it. A scikit-learn call that raises
  (too few rows for the folds, one class only, an infinite feature value) is \<open>None\<close>.
  The variance inflation factor is modelled where it returns a value.
\<close>

record ('g, 'm) library =
  variance_inflation_factor :: "cell list list \<Rightarrow> nat \<Rightarrow> cell"
  RandomState :: "nat \<Rightarrow> 'g"
  permutation :: "'g \<Rightarrow> nat \<Rightarrow> nat list \<times> 'g"
  cross_val_auc ::
    "'g \<Rightarrow> nat \<Rightarrow> nat \<times> nat \<Rightarrow> frame \<Rightarrow> series \<Rightarrow> (real list \<times> 'g) option"
  forest_fit :: "'g \<Rightarrow> nat \<times> nat \<Rightarrow> frame \<Rightarrow> series \<Rightarrow> ('m \<times> 'g) option"
  forest_proba :: "'m \<Rightarrow> cell list \<Rightarrow> real option"
  roc_auc_score :: "cell list \<Rightarrow> real list \<Rightarrow> real option"

section \<open>The validation split\<close>

text \<open>\<^verbatim>\<open>iloc\<close>: rows by position; a position out of range raises IndexError.\<close>

definition iloc :: "frame \<Rightarrow> nat list \<Rightarrow> frame option" where
  "iloc df ps =
     (if list_all (\<lambda>p. p < length (index df)) ps
      then Some (df\<lparr>index := map (\<lambda>p. index df ! p) ps\<rparr>) else None)"

definition iloc_series :: "series \<Rightarrow> nat list \<Rightarrow> series option" where
  "iloc_series s ps =
     (if list_all (\<lambda>p. p < length s) ps then Some (map (\<lambda>p. s ! p) ps) else None)"

text \<open>
  \<^verbatim>\<open>train_test_split(X, y, test_size=t, random_state=r)\<close>: the test side has
  \<open>ceil(t * n)\<close> rows, the training side the others; ValueError when the lengths
  differ or the training side would be empty. With an integer \<open>r\<close> the permutation is
  drawn from a fresh generator seeded with \<open>r\<close>, and the global generator is neither
  read nor advanced; with \<open>r = None\<close> it is drawn from the global generator.
\<close>

definition train_test_split ::
  "('g, 'm) library \<Rightarrow> 'g \<Rightarrow> frame \<Rightarrow> series \<Rightarrow> real \<Rightarrow> nat option \<Rightarrow>
     ((frame \<times> frame \<times> series \<times> series) \<times> 'g) option" where
  "train_test_split L g X y test_size random_state =
     (let n_samples = length (index X);
          n_test = nat \<lceil>test_size * real n_samples\<rceil>;
          n_train = n_samples - n_test
      in if length y \<noteq> n_samples \<or> n_train = 0 then None
         else
           (let (perm, g') =
                  (case random_state of
                     None \<Rightarrow> permutation L g n_samples
                   | Some seed \<Rightarrow> (fst (permutation L (RandomState L seed) n_samples), g));
                ind_test = take n_test perm;
                ind_train = take n_train (drop n_test perm)
            in do {
                 X_train \<leftarrow> iloc X ind_train;
                 X_test \<leftarrow> iloc X ind_test;
                 y_train \<leftarrow> iloc_series y ind_train;
                 y_test \<leftarrow> iloc_series y ind_test;
                 Some ((X_train, X_test, y_train, y_test), g')
               }))"

section \<open>The multicollinearity check\<close>

text \<open>
  \<^verbatim>\<open>add_constant\<close> puts a column \<open>const\<close> of ones in front, unless the table already
  has a column with one non-zero value in every row.
\<close>

definition is_constant_column :: "frame \<Rightarrow> string \<Rightarrow> bool" where
  "is_constant_column df c =
     (case index df of
        [] \<Rightarrow> False
      | i # rest \<Rightarrow>
          (case val df i c of
             Num v \<Rightarrow> v \<noteq> 0 \<and> list_all (\<lambda>j. val df j c = Num v) rest
           | Int64 k \<Rightarrow> k \<noteq> 0 \<and> list_all (\<lambda>j. val df j c = Int64 k) rest
           | _ \<Rightarrow> False))"

definition add_constant :: "frame \<Rightarrow> frame" where
  "add_constant df =
     (if list_ex (is_constant_column df) (columns df) then df
      else df\<lparr>columns := ''const'' # columns df,
              val := (\<lambda>i c. if c = ''const'' then Num 1 else val df i c)\<rparr>)"

definition calculate_vifs :: "('g, 'm) library \<Rightarrow> frame \<Rightarrow> (string \<times> cell) list" where
  "calculate_vifs L df =
     (let df = add_constant df;
          Variable = columns df;
          VIF = map (variance_inflation_factor L (map (row_values df) (index df)))
                    [0..<length (columns df)]
      in zip Variable VIF)"

section \<open>Training\<close>

record param_grid =
  n_estimators :: "nat list"
  max_depth :: "nat list"

text \<open>
  The candidates of a grid, as \<open>(n_estimators, max_depth)\<close>, in the order scikit-learn
  visits them: the keys sorted by name, the last key varying fastest.
\<close>

definition ParameterGrid :: "param_grid \<Rightarrow> (nat \<times> nat) list" where
  "ParameterGrid pg = concat (map (\<lambda>d. map (\<lambda>n. (n, d)) (n_estimators pg)) (max_depth pg))"

definition mean :: "real list \<Rightarrow> real" where
  "mean xs = sum_list xs / real (length xs)"

text \<open>The mean of the fold scores of one candidate, scored from generator state \<open>g\<close>.\<close>

definition mean_test_score ::
  "('g, 'm) library \<Rightarrow> 'g \<Rightarrow> nat \<Rightarrow> nat \<times> nat \<Rightarrow> frame \<Rightarrow> series \<Rightarrow> real option" where
  "mean_test_score L g cv p X y = map_option (mean \<circ> fst) (cross_val_auc L g cv p X y)"

text \<open>The mean test score of every candidate, the generator threaded through.\<close>

fun evaluate_candidates ::
  "('g, 'm) library \<Rightarrow> 'g \<Rightarrow> nat \<Rightarrow> frame \<Rightarrow> series \<Rightarrow> (nat \<times> nat) list \<Rightarrow>
     (real list \<times> 'g) option" where
  "evaluate_candidates L g cv X y [] = Some ([], g)"
| "evaluate_candidates L g cv X y (p # ps) =
     do {
       (scores, g1) \<leftarrow> cross_val_auc L g cv p X y;
       (ms, g2) \<leftarrow> evaluate_candidates L g1 cv X y ps;
       Some (mean scores # ms, g2)
     }"

text \<open>
  The rank of a candidate is one more than the number of candidates with a strictly
  higher mean score; the best candidate is the first one of minimal rank.
\<close>

definition rank_test_score :: "real list \<Rightarrow> nat list" where
  "rank_test_score ms = map (\<lambda>m. Suc (length (filter (\<lambda>m'. m < m') ms))) ms"

fun argmin :: "nat list \<Rightarrow> nat" where
  "argmin [] = 0"
| "argmin [x] = 0"
| "argmin (x # y # ys) = (let k = argmin (y # ys) in if x \<le> (y # ys) ! k then 0 else Suc k)"

record 'm grid_search =
  cv_results :: "((nat \<times> nat) \<times> real) list"
  best_index :: nat
  best_params :: "nat \<times> nat"
  best_estimator :: 'm

text \<open>
  \<^verbatim>\<open>GridSearchCV(model, param_grid, cv=cv, scoring='roc_auc').fit(X, y)\<close>: every
  candidate is scored, the best one is refitted on all of \<open>X\<close>. An empty grid raises
  ValueError.
\<close>

definition GridSearchCV_fit ::
  "('g, 'm) library \<Rightarrow> 'g \<Rightarrow> param_grid \<Rightarrow> nat \<Rightarrow> frame \<Rightarrow> series \<Rightarrow> ('m grid_search \<times> 'g) option" where
  "GridSearchCV_fit L g pg cv X y =
     (let candidates = ParameterGrid pg
      in if candidates = [] then None
         else
           do {
             (ms, g1) \<leftarrow> evaluate_candidates L g cv X y candidates;
             let i = argmin (rank_test_score ms);
             (m, g2) \<leftarrow> forest_fit L g1 (candidates ! i) X y;
             Some (\<lparr>cv_results = zip candidates ms, best_index = i,
                    best_params = candidates ! i, best_estimator = m\<rparr>, g2)
           })"

text \<open>
  The training cell assigns \<open>param_grid\<close> twice; the search runs with the second value.
\<close>

definition full_grid :: param_grid where
  "full_grid = \<lparr>n_estimators = [50, 100, 200, 300], max_depth = [10, 15, 20, 25, 30]\<rparr>"

definition pinned_grid :: param_grid where
  "pinned_grid = \<lparr>n_estimators = [300], max_depth = [25]\<rparr>"

definition train_model ::
  "('g, 'm) library \<Rightarrow> 'g \<Rightarrow> frame \<Rightarrow> series \<Rightarrow> ('m grid_search \<times> 'g) option" where
  "train_model L g X_train y_train =
     (let param_grid = full_grid;
          param_grid = pinned_grid
      in GridSearchCV_fit L g param_grid 5 X_train y_train)"

section \<open>Evaluation and prediction\<close>

text \<open>
  \<^verbatim>\<open>predict_proba(X)[:, 1]\<close> and \<^verbatim>\<open>predict(X)\<close>: the class is the first one of
  highest probability, so class 1 needs more than one half. A table without rows raises
  ValueError, and so does a row the model rejects.
\<close>

definition predict_proba :: "('g, 'm) library \<Rightarrow> 'm \<Rightarrow> frame \<Rightarrow> real list option" where
  "predict_proba L m X =
     (if index X = [] then None
      else those (map (\<lambda>i. forest_proba L m (row_values X i)) (index X)))"

definition predict :: "('g, 'm) library \<Rightarrow> 'm \<Rightarrow> frame \<Rightarrow> cell list option" where
  "predict L m X =
     map_option (map (\<lambda>p. if 1 / 2 < p then Num 1 else Num 0)) (predict_proba L m X)"

definition accuracy_score :: "cell list \<Rightarrow> cell list \<Rightarrow> real" where
  "accuracy_score y_true y_pred =
     real (length (filter (\<lambda>(a, b). a = b) (zip y_true y_pred))) / real (length y_true)"

text \<open>
  \<^verbatim>\<open>df.update(other)\<close>: a cell of \<open>df\<close> is overwritten when \<open>other\<close> has the same
  row label and column label and its cell there is not missing. No row and no column is
  added.
\<close>

definition update :: "frame \<Rightarrow> frame \<Rightarrow> frame" where
  "update df other =
     df\<lparr>val := (\<lambda>i c.
        if i \<in> set (index df) \<and> c \<in> set (columns df) \<and>
           i \<in> set (index other) \<and> c \<in> set (columns other) \<and> \<not> isna (val other i c)
        then val other i c else val df i c)\<rparr>"

definition score_season3 ::
  "('g, 'm) library \<Rightarrow> 'm \<Rightarrow> frame \<Rightarrow> frame \<Rightarrow> frame \<Rightarrow> csv option" where
  "score_season3 L best_model X_test data_season3 data_season3_clean =
     do {
       proba \<leftarrow> predict_proba L best_model X_test;
       data_season3_clean \<leftarrow> setcol_array data_season3_clean ''SwingProbability'' (map Num proba);
       let data_season3 = update data_season3 data_season3_clean;
       Some (to_csv data_season3)
     }"

section \<open>The notebook\<close>

text \<open>
  One run of all cells, in order. The inputs are the three parsed files and the state of
  the global random generator; the flag says whether the cell of the multicollinearity
  check is run. The result holds what the run prints for that check, what it reports on
  the validation split, and the two files it writes.
\<close>

record 'm outputs =
  vif_data :: "(string \<times> cell) list option"
  selected_params :: "nat \<times> nat"
  best_model_pkl :: 'm
  y_pred_proba :: "real list"
  y_pred :: "cell list"
  roc_auc :: real
  accuracy :: real
  validation_csv :: csv

definition notebook ::
  "('g, 'm) library \<Rightarrow> bool \<Rightarrow> 'g \<Rightarrow> csv \<Rightarrow> csv \<Rightarrow> csv \<Rightarrow> 'm outputs option" where
  "notebook L vif_cell g year1 year2 year3 =
     do {
       let data_train = load_train year1 year2;
       let (data_season3, data_season3_clean) = clean_season3 (read_csv year3);
       data_train \<leftarrow> add_swing data_train;
       data_train \<leftarrow> add_relative_pitch_height data_train;
       data_season3_clean \<leftarrow> add_relative_pitch_height data_season3_clean;
       X_train \<leftarrow> encode_train data_train;
       X_test \<leftarrow> encode_test X_train data_season3_clean;
       y_train \<leftarrow> getcol data_train ''swing'';
       ((X_train, X_val, y_train, y_val), g) \<leftarrow>
         train_test_split L g X_train y_train (1 / 5) (Some 21);
       let vif_data = (if vif_cell then Some (calculate_vifs L X_train) else None);
       (grid_search, g) \<leftarrow> train_model L g X_train y_train;
       let best_model = best_estimator grid_search;
       y_pred_proba \<leftarrow> predict_proba L best_model X_val;
       y_pred \<leftarrow> predict L best_model X_val;
       roc_auc \<leftarrow> roc_auc_score L (map snd y_val) y_pred_proba;
       let accuracy = accuracy_score (map snd y_val) y_pred;
       validation \<leftarrow> score_season3 L best_model X_test data_season3 data_season3_clean;
       Some \<lparr>vif_data = vif_data, selected_params = best_params grid_search,
             best_model_pkl = best_model, y_pred_proba = y_pred_proba, y_pred = y_pred,
             roc_auc = roc_auc, accuracy = accuracy, validation_csv = validation\<rparr>
     }"

text \<open>A result without the printed table of the multicollinearity check.\<close>

definition downstream :: "'m outputs \<Rightarrow> 'm outputs" where
  "downstream out = out\<lparr>vif_data := None\<rparr>"

section \<open>Example inputs\<close>

definition year_a :: csv where
  "year_a =
     \<lparr>header = [''description'', ''plate_z''],
      body = [[Str ''foul'', Num 2], [Str ''ball'', NaN]]\<rparr>"

definition year_b :: csv where
  "year_b = \<lparr>header = [''description'', ''plate_z''], body = [[Str ''ball'', Num 3]]\<rparr>"

text \<open>
  A stand-in for the libraries. The cross-validated scores favour the pair \<open>(50, 10)\<close>;
  the probability of class 1 depends on the first feature only. As scikit-learn does, it
  refuses to cross-validate fewer rows than folds, to fit on no rows, to score a row whose
  first feature is missing, infinite or a string, and to compute a ROC-AUC for one class
  only.
\<close>

definition lib_c1 :: "(unit, nat \<times> nat) library" where
  "lib_c1 =
     \<lparr>variance_inflation_factor = (\<lambda>values i. Num 1),
      RandomState = (\<lambda>seed. ()),
      permutation = (\<lambda>g n. (rev [0..<n], g)),
      cross_val_auc =
        (\<lambda>g cv p X y.
           if length (index X) < cv then None
           else Some (replicate cv (if p = (50, 10) then 9 / 10 else 1 / 2), g)),
      forest_fit = (\<lambda>g p X y. if index X = [] then None else Some (p, g)),
      forest_proba =
        (\<lambda>m x. case x of
                 Num v # rest \<Rightarrow> Some (if 90 < v then 9 / 10 else 1 / 10)
               | Int64 k # rest \<Rightarrow> Some (if 90 < k then 9 / 10 else 1 / 10)
               | NegZero # rest \<Rightarrow> Some (1 / 10)
               | _ \<Rightarrow> None),
      roc_auc_score =
        (\<lambda>y_true y_score. if length (remdups y_true) < 2 then None else Some (1 / 2))\<rparr>"

definition X_c1 :: frame where
  "X_c1 =
     \<lparr>columns = [''balls''], index = [0, 1, 2, 3, 4, 5, 6, 7, 8, 9],
      val = (\<lambda>i c. Num (real (i mod 4)))\<rparr>"

definition y_c1 :: series where
  "y_c1 =
     [(0, Num 0), (1, Num 1), (2, Num 0), (3, Num 1), (4, Num 1),
      (5, Num 0), (6, Num 1), (7, Num 0), (8, Num 1), (9, Num 0)]"


definition lib_global :: "(nat, unit) library" where
  "lib_global =
     \<lparr>variance_inflation_factor = (\<lambda>values i. Num 1),
      RandomState = (\<lambda>seed. seed),
      permutation = (\<lambda>g n. (if even g then [0..<n] else rev [0..<n], Suc g)),
      cross_val_auc = (\<lambda>g cv p X y. Some (replicate cv (1 / 2), Suc g)),
      forest_fit = (\<lambda>g p X y. Some ((), Suc g)),
      forest_proba = (\<lambda>m x. Some (1 / 2)),
      roc_auc_score = (\<lambda>y_true y_score. Some (1 / 2))\<rparr>"

definition pitch_header :: "string list" where
  "pitch_header =
     [''release_speed'', ''plate_x'', ''stand'', ''p_throws'', ''pfx_x'', ''pfx_z'', ''balls'',
      ''strikes'', ''pitch_type'', ''plate_z'', ''sz_bot'', ''sz_top'', ''description'']"

definition year1_ex :: csv where
  "year1_ex =
     \<lparr>header = pitch_header,
      body =
        [[Num 95, Num 0, Str ''R'', Str ''L'', Num 1, Num 1, Num 0, Num 0, Str ''FF'',
          Num 2, Num 1, Num 3, Str ''foul''],
         [Num 84, Num 1, Str ''L'', Str ''R'', Num 0, Num 1, Num 1, Num 2, Str ''SL'',
          Num 4, Num 1, Num 3, Str ''ball''],
         [Num 92, Num 0, Str ''R'', Str ''R'', Num 1, Num 0, Num 0, Num 1, Str ''FF'',
          Num 2, Num 1, Num 3, Str ''swinging_strike''],
         [Num 78, Num 1, Str ''L'', Str ''R'', Num 0, Num 0, Num 2, Num 1, Str ''CU'',
          Num 0, Num 1, Num 3, Str ''called_strike''],
         [Num 90, Num 0, Str ''R'', Str ''R'', Num 1, Num 1, Num 1, Num 1, Str ''FF'',
          Num 2, Num 1, Num 3, Str ''foul''],
         [Num 86, Num 0, Str ''L'', Str ''L'', Num 0, Num 1, Num 0, Num 2, Str ''SL'',
          Num 2, Num 1, Num 3, Str ''hit_into_play'']]\<rparr>"

definition year2_ex :: csv where
  "year2_ex =
     \<lparr>header = pitch_header,
      body =
        [[Num 91, Num 0, Str ''R'', Str ''R'', Num 1, Num 0, Num 2, Num 1, Str ''CU'',
          Num 2, Num 1, Num 3, Str ''hit_into_play''],
         [NaN, Num 0, Str ''R'', Str ''R'', Num 1, Num 0, Num 2, Num 1, Str ''CU'',
          Num 2, Num 1, Num 3, Str ''ball''],
         [Num 93, Num 0, Str ''L'', Str ''L'', Num 1, Num 1, Num 1, Num 1, Str ''FF'',
          Num 3, Num 1, Num 3, Str ''foul_tip''],
         [Num 88, Num 1, Str ''R'', Str ''R'', Num 0, Num 1, Num 3, Num 2, Str ''SL'',
          Num 2, Num 1, Num 3, Str ''foul''],
         [Num 85, Num 1, Str ''R'', Str ''L'', Num 0, Num 0, Num 1, Num 0, Str ''FF'',
          Num 4, Num 1, Num 3, Str ''ball''],
         [Num 97, Num 0, Str ''R'', Str ''R'', Num 1, Num 1, Num 0, Num 2, Str ''FF'',
          Num 2, Num 1, Num 3, Str ''swinging_strike'']]\<rparr>"

definition year3_ex :: csv where
  "year3_ex =
     \<lparr>header = pitch_header,
      body =
        [[Num 96, Num 0, Str ''L'', Str ''R'', Num 1, Num 1, Num 0, Num 0, Str ''KN'',
          Num 2, Num 1, Num 3, Str ''ball''],
         [Num 88, Num 1, Str ''R'', Str ''R'', Num 0, NaN, Num 1, Num 2, Str ''SL'',
          Num 4, Num 1, Num 3, Str ''foul''],
         [Num 80, Num 1, Str ''R'', Str ''R'', Num 0, Num 1, Num 1, Num 2, Str ''SW'',
          Num 4, Num 1, Num 3, Str ''foul'']]\<rparr>"

definition out_ex :: "(nat \<times> nat) outputs" where
  "out_ex = the (notebook lib_c1 True () year1_ex year2_ex year3_ex)"

definition clean_ex :: frame where
  "clean_ex = the (add_relative_pitch_height (snd (clean_season3 (read_csv year3_ex))))"

definition X_train_ex :: frame where
  "X_train_ex =
     the (encode_train (the (add_relative_pitch_height (the (add_swing (load_train year1_ex year2_ex))))))"

section \<open>Properties\<close>

lemma map_of_graph:
  "i \<in> set xs \<Longrightarrow> map_of (map (\<lambda>j. (j, g j)) xs) i = Some (g i)"
  by (induction xs) auto

lemma series_at_getcol:
  assumes "getcol df c = Some s" and "i \<in> set (index df)"
  shows "series_at (apply_series f s) i = f (val df i c)"
proof -
  have s: "s = map (\<lambda>i. (i, val df i c)) (index df)"
    using assms(1) by (simp add: getcol_def split: if_splits)
  show ?thesis
    using map_of_graph [OF assms(2), of "\<lambda>j. f (val df j c)"]
    by (simp add: s series_at_def apply_series_def comp_def)
qed

subsection \<open>The example training table\<close>

lemmas table_defs = load_train_def load_train_raw_def dropna_def concat_ignore_index_def
  read_csv_def isna_any_def isna_def cell_of_row_def Let_def

lemma index_load_train_ab: "index (load_train year_a year_b) = [0, 2]"
  by (simp add: table_defs year_a_def year_b_def upt_rec nth_Cons')

lemma columns_load_train_ab: "columns (load_train year_a year_b) = [''description'', ''plate_z'']"
  by (simp add: table_defs year_a_def year_b_def)

lemma descr_load_train_ab: "val (load_train year_a year_b) 0 ''description'' = Str ''foul''"
  by (simp add: table_defs year_a_def year_b_def)

subsection \<open>The swing label\<close>

lemma swing_of_iff:
  "swing_of x = Num 1 \<longleftrightarrow>
     (\<exists>s \<in> set [''foul'', ''hit_into_play'', ''swinging_strike'', ''foul_tip'', ''foul_bunt'',
                 ''swinging_strike_blocked'', ''missed_bunt'', ''bunt_foul_tip'',
                 ''foul_pitchout'']. x = Str s)"
  by (auto simp add: swing_of_def swing_events_def)

lemma swing_of_cases: "swing_of x = Num 1 \<or> swing_of x = Num 0"
  by (simp add: swing_of_def)

lemma add_swing_val:
  assumes "add_swing df = Some labelled" and "i \<in> set (index df)"
  shows "val labelled i ''swing'' = swing_of (val df i ''description'')"
proof -
  obtain s where s: "getcol df ''description'' = Some s"
    and l: "labelled = setcol_series df ''swing'' (apply_series swing_of s)"
    using assms(1) by (auto simp add: add_swing_def split: bind_splits)
  show ?thesis
    using series_at_getcol [OF s assms(2), of swing_of] by (simp add: l setcol_series_def)
qed

text \<open>
  C2. In every row of the cleaned training table the label \<open>swing\<close> is 1 exactly when
  the row's \<open>description\<close> is one of the nine tokens, compared as strings, and 0
  otherwise; \<open>ball\<close> gives 0, \<open>foul\<close> gives 1, and the comparison is case-sensitive
  (\<open>Foul\<close> gives 0).
\<close>

theorem swing_label_rule:
  assumes "add_swing (load_train year1 year2) = Some labelled"
    and "i \<in> set (index (load_train year1 year2))"
  shows "(val labelled i ''swing'' = Num 1 \<longleftrightarrow>
            (\<exists>s \<in> set [''foul'', ''hit_into_play'', ''swinging_strike'', ''foul_tip'',
                        ''foul_bunt'', ''swinging_strike_blocked'', ''missed_bunt'',
                        ''bunt_foul_tip'', ''foul_pitchout''].
               val (load_train year1 year2) i ''description'' = Str s))
       \<and> (val labelled i ''swing'' \<noteq> Num 1 \<longrightarrow> val labelled i ''swing'' = Num 0)
       \<and> swing_of (Str ''ball'') = Num 0 \<and> swing_of (Str ''foul'') = Num 1
       \<and> swing_of (Str ''Foul'') = Num 0"
proof -
  have v: "val labelled i ''swing'' = swing_of (val (load_train year1 year2) i ''description'')"
    using add_swing_val [OF assms] .
  have "swing_of (Str ''ball'') = Num 0" "swing_of (Str ''foul'') = Num 1"
    "swing_of (Str ''Foul'') = Num 0"
    by (simp_all add: swing_of_def swing_events_def)
  then show ?thesis
    using swing_of_iff [of "val (load_train year1 year2) i ''description''"]
      swing_of_cases [of "val (load_train year1 year2) i ''description''"]
    unfolding v by blast
qed

theorem swing_label_rule_witness:
  "add_swing (load_train year_a year_b) = Some (the (add_swing (load_train year_a year_b)))
   \<and> 0 \<in> set (index (load_train year_a year_b))
   \<and> val (load_train year_a year_b) 0 ''description'' = Str ''foul''
   \<and> val (the (add_swing (load_train year_a year_b))) 0 ''swing'' = Num 1"
proof -
  have a: "add_swing (load_train year_a year_b) = Some (the (add_swing (load_train year_a year_b)))"
    by (simp add: add_swing_def getcol_def columns_load_train_ab)
  have b: "0 \<in> set (index (load_train year_a year_b))"
    by (simp add: index_load_train_ab)
  show ?thesis
    using swing_label_rule [OF a b] a b by (simp add: descr_load_train_ab)
qed

subsection \<open>Cleaning the training table\<close>

lemma dropna_simps:
  "columns (dropna df) = columns df" "val (dropna df) = val df"
  "index (dropna df) = filter (\<lambda>i. \<not> isna_any df i) (index df)"
  by (simp_all add: dropna_def)

lemma isna_any_iff: "isna_any df i \<longleftrightarrow> (\<exists>c \<in> set (columns df). val df i c = NaN)"
  by (simp add: isna_any_def isna_def list_ex_iff)

lemma load_train_raw_val:
  "i < length (body year1) \<Longrightarrow> c \<in> set (header year1) \<Longrightarrow>
     val (load_train_raw year1 year2) i c = cell_of_row (header year1) (body year1 ! i) c"
  "length (body year1) \<le> i \<Longrightarrow> i < length (body year1) + length (body year2) \<Longrightarrow>
     c \<in> set (header year2) \<Longrightarrow>
     val (load_train_raw year1 year2) i c =
       cell_of_row (header year2) (body year2 ! (i - length (body year1))) c"
  by (auto simp add: load_train_raw_def concat_ignore_index_def read_csv_def Let_def)

text \<open>
  C6. A row of the concatenated table of seasons 1 and 2 is in the cleaned training table
  exactly when none of its cells is missing. The rows that stay keep their order, their
  labels and their cells, which are the cells of the season file they were read from;
  no cell of the cleaned table is missing, and none is filled in.
\<close>

theorem cleaned_training_rows:
  "(i \<in> set (index (load_train year1 year2)) \<longleftrightarrow>
      i \<in> set (index (load_train_raw year1 year2)) \<and>
      (\<forall>c \<in> set (columns (load_train_raw year1 year2)). val (load_train_raw year1 year2) i c \<noteq> NaN))
   \<and> index (load_train year1 year2) =
       filter (\<lambda>i. \<not> isna_any (load_train_raw year1 year2) i) (index (load_train_raw year1 year2))
   \<and> columns (load_train year1 year2) = columns (load_train_raw year1 year2)
   \<and> row_values (load_train year1 year2) i = row_values (load_train_raw year1 year2) i
   \<and> (i \<in> set (index (load_train year1 year2)) \<longrightarrow>
        (\<forall>c \<in> set (columns (load_train year1 year2)). \<not> isna (val (load_train year1 year2) i c)))
   \<and> (i < length (body year1) \<longrightarrow>
        (\<forall>c \<in> set (header year1).
           val (load_train year1 year2) i c = cell_of_row (header year1) (body year1 ! i) c))
   \<and> (length (body year1) \<le> i \<and> i < length (body year1) + length (body year2) \<longrightarrow>
        (\<forall>c \<in> set (header year2).
           val (load_train year1 year2) i c =
             cell_of_row (header year2) (body year2 ! (i - length (body year1))) c))"
proof -
  let ?raw = "load_train_raw year1 year2"
  have t: "load_train year1 year2 = dropna ?raw"
    by (simp add: load_train_def)
  have 1: "i \<in> set (index (dropna ?raw)) \<longleftrightarrow>
      i \<in> set (index ?raw) \<and> (\<forall>c \<in> set (columns ?raw). val ?raw i c \<noteq> NaN)"
    by (auto simp add: dropna_simps isna_any_iff)
  have 5: "i \<in> set (index (dropna ?raw)) \<longrightarrow>
        (\<forall>c \<in> set (columns (dropna ?raw)). \<not> isna (val (dropna ?raw) i c))"
    by (auto simp add: dropna_simps isna_any_iff isna_def)
  have 4: "row_values (dropna ?raw) i = row_values ?raw i"
    by (simp add: row_values_def dropna_simps)
  show ?thesis
    unfolding t using 1 4 5 by (simp add: dropna_simps load_train_raw_val)
qed

theorem cleaned_training_rows_witness:
  "0 \<in> set (index (load_train year_a year_b)) \<and> 1 \<notin> set (index (load_train year_a year_b))
   \<and> val (load_train_raw year_a year_b) 1 ''plate_z'' = NaN
   \<and> ''plate_z'' \<in> set (columns (load_train_raw year_a year_b))
   \<and> row_values (load_train year_a year_b) 0 = [Str ''foul'', Num 2]
   \<and> body year_a ! 0 = [Str ''foul'', Num 2]"
proof -
  have r: "row_values (load_train_raw year_a year_b) 0 = [Str ''foul'', Num 2]"
    "body year_a ! 0 = [Str ''foul'', Num 2]"
    by (simp_all add: row_values_def table_defs year_a_def year_b_def)
  have n: "val (load_train_raw year_a year_b) 1 ''plate_z'' = NaN"
    "''plate_z'' \<in> set (columns (load_train_raw year_a year_b))"
    by (simp_all add: table_defs year_a_def year_b_def)
  have "row_values (load_train year_a year_b) 0 = [Str ''foul'', Num 2]"
    using cleaned_training_rows [of 0 year_a year_b] r by simp
  moreover have "1 \<notin> set (index (load_train year_a year_b))"
    using cleaned_training_rows [of 1 year_a year_b] n by blast
  ultimately show ?thesis
    using r n by (simp add: index_load_train_ab)
qed

subsection \<open>Model selection\<close>

lemma argmin_least: "rs \<noteq> [] \<Longrightarrow> argmin rs < length rs \<and> (\<forall>r \<in> set rs. rs ! argmin rs \<le> r)"
proof (induction rs rule: argmin.induct)
  case 1
  then show ?case by simp
next
  case (2 x)
  then show ?case by simp
next
  case (3 x y ys)
  then have ih: "argmin (y # ys) < length (y # ys)"
    "\<forall>r \<in> set (y # ys). (y # ys) ! argmin (y # ys) \<le> r"
    by simp_all
  show ?case
  proof (cases "x \<le> (y # ys) ! argmin (y # ys)")
    case True
    then show ?thesis using ih(2) by (auto simp add: Let_def)
  next
    case False
    then show ?thesis using ih by (auto simp add: Let_def)
  qed
qed

lemma rank_one_exists: "ms \<noteq> [] \<Longrightarrow> Suc 0 \<in> set (rank_test_score ms)"
proof -
  assume ne: "ms \<noteq> []"
  then have "Max (set ms) \<in> set ms" by simp
  moreover have "filter (\<lambda>m'. Max (set ms) < m') ms = []"
    by (simp add: filter_empty_conv not_less)
  ultimately show ?thesis
    by (force simp add: rank_test_score_def image_iff)
qed

lemma best_rank_is_maximal:
  assumes "ms \<noteq> []"
  shows "argmin (rank_test_score ms) < length ms
         \<and> (\<forall>m \<in> set ms. m \<le> ms ! argmin (rank_test_score ms))"
proof -
  let ?rs = "rank_test_score ms"
  let ?i = "argmin ?rs"
  have ne: "?rs \<noteq> []" using assms by (simp add: rank_test_score_def)
  have len: "length ?rs = length ms" by (simp add: rank_test_score_def)
  have i: "?i < length ms" using argmin_least [OF ne] len by simp
  have "?rs ! ?i \<le> Suc 0" using argmin_least [OF ne] rank_one_exists [OF assms] by blast
  moreover have "?rs ! ?i = Suc (length (filter (\<lambda>m'. ms ! ?i < m') ms))"
    using i by (simp add: rank_test_score_def)
  ultimately have "filter (\<lambda>m'. ms ! ?i < m') ms = []" by simp
  then have "\<forall>m \<in> set ms. m \<le> ms ! ?i"
    by (simp add: filter_empty_conv not_less)
  then show ?thesis using i by simp
qed

lemma length_evaluate_candidates:
  "evaluate_candidates L g cv X y ps = Some (ms, g') \<Longrightarrow> length ms = length ps"
proof (induction ps arbitrary: g ms)
  case Nil
  then show ?case by simp
next
  case (Cons p ps)
  then obtain scores g1 ms' where "evaluate_candidates L g1 cv X y ps = Some (ms', g')"
    and "ms = mean scores # ms'"
    by (auto split: bind_splits)
  then show ?case using Cons.IH by auto
qed

text \<open>Whatever the grid, a search that returns has selected a candidate of highest mean score.\<close>

lemma grid_search_selects_maximum:
  assumes "GridSearchCV_fit L g pg cv X y = Some (gs, g')"
  shows "best_index gs < length (cv_results gs)
         \<and> cv_results gs ! best_index gs = (best_params gs, snd (cv_results gs ! best_index gs))
         \<and> map fst (cv_results gs) = ParameterGrid pg
         \<and> (\<forall>(p, m) \<in> set (cv_results gs). m \<le> snd (cv_results gs ! best_index gs))"
proof -
  let ?cs = "ParameterGrid pg"
  have ne: "?cs \<noteq> []" using assms by (auto simp add: GridSearchCV_fit_def Let_def split: if_splits)
  obtain ms g1 where ev: "evaluate_candidates L g cv X y ?cs = Some (ms, g1)"
    and gs: "cv_results gs = zip ?cs ms" "best_index gs = argmin (rank_test_score ms)"
      "best_params gs = ?cs ! argmin (rank_test_score ms)"
    using assms ne by (auto simp add: GridSearchCV_fit_def Let_def split: bind_splits)
  have len: "length ms = length ?cs"
    using length_evaluate_candidates [OF ev] .
  then have mne: "ms \<noteq> []" using ne by auto
  let ?i = "argmin (rank_test_score ms)"
  have best: "?i < length ms" "\<forall>m \<in> set ms. m \<le> ms ! ?i"
    using best_rank_is_maximal [OF mne] by simp_all
  have "\<forall>(p, m) \<in> set (zip ?cs ms). m \<le> ms ! ?i"
    using best(2) by (auto dest: set_zip_rightD)
  then show ?thesis
    using best(1) len by (simp add: gs)
qed

lemma train_model_pinned:
  "train_model L g X y =
     do {
       (scores, g1) \<leftarrow> cross_val_auc L g 5 (300, 25) X y;
       (m, g2) \<leftarrow> forest_fit L g1 (300, 25) X y;
       Some (\<lparr>cv_results = [((300, 25), mean scores)], best_index = 0,
              best_params = (300, 25), best_estimator = m\<rparr>, g2)
     }"
  by (cases "cross_val_auc L g 5 (300, 25) X y")
     (auto simp add: train_model_def GridSearchCV_fit_def pinned_grid_def ParameterGrid_def
        Let_def rank_test_score_def)

text \<open>
  C1 (the search as the training cell runs it). The search runs over the grid in force
  when it is called, which is the single pair \<open>(300, 25)\<close>: the cell overwrites the grid
  of twenty pairs before the call. The search returns exactly when the cross-validation
  and the refit of that pair return; it then has scored that pair only and selected it,
  so the selected pair has the highest mean cross-validated score among the candidates
  that were scored.
\<close>

theorem trainer_selects_from_grid_in_force:
  "(train_model L g X y \<noteq> None \<longleftrightarrow>
      (\<exists>scores g1. cross_val_auc L g 5 (300, 25) X y = Some (scores, g1) \<and>
                   forest_fit L g1 (300, 25) X y \<noteq> None))
   \<and> ParameterGrid pinned_grid = [(300, 25)]
   \<and> (\<forall>gs g'. train_model L g X y = Some (gs, g') \<longrightarrow>
         best_params gs = (300, 25)
         \<and> map fst (cv_results gs) = ParameterGrid pinned_grid
         \<and> (\<exists>s. mean_test_score L g 5 (best_params gs) X y = Some s \<and>
                 (\<forall>(p, m) \<in> set (cv_results gs). m \<le> s)))"
proof (intro conjI allI impI)
  show "train_model L g X y \<noteq> None \<longleftrightarrow>
      (\<exists>scores g1. cross_val_auc L g 5 (300, 25) X y = Some (scores, g1) \<and>
                   forest_fit L g1 (300, 25) X y \<noteq> None)"
    unfolding train_model_pinned by (auto split: bind_splits)
  show p: "ParameterGrid pinned_grid = [(300, 25)]"
    by (simp add: pinned_grid_def ParameterGrid_def)
  fix gs g' assume t: "train_model L g X y = Some (gs, g')"
  then obtain scores g1 where c: "cross_val_auc L g 5 (300, 25) X y = Some (scores, g1)"
    and r: "cv_results gs = [((300, 25), mean scores)]" and b: "best_params gs = (300, 25)"
    unfolding train_model_pinned by (auto split: bind_splits)
  show "best_params gs = (300, 25)" by (rule b)
  show "map fst (cv_results gs) = ParameterGrid pinned_grid" by (simp add: r p)
  show "\<exists>s. mean_test_score L g 5 (best_params gs) X y = Some s \<and>
            (\<forall>(p, m) \<in> set (cv_results gs). m \<le> s)"
    by (simp add: mean_test_score_def b c r)
qed

lemma mean_test_score_c1:
  "mean_test_score lib_c1 () 5 (300, 25) X_c1 y_c1 = Some (1 / 2)"
  "mean_test_score lib_c1 () 5 (50, 10) X_c1 y_c1 = Some (9 / 10)"
  by code_simp+

lemma train_model_c1:
  "train_model lib_c1 () X_c1 y_c1 =
     Some (\<lparr>cv_results = [((300, 25), 1 / 2)], best_index = 0, best_params = (300, 25),
            best_estimator = (300, 25)\<rparr>, ())"
  by code_simp

theorem trainer_selects_from_grid_in_force_witness:
  "train_model lib_c1 () X_c1 y_c1 \<noteq> None
   \<and> map_option (best_params \<circ> fst) (train_model lib_c1 () X_c1 y_c1) = Some (300, 25)
   \<and> map_option (cv_results \<circ> fst) (train_model lib_c1 () X_c1 y_c1) = Some [((300, 25), 1 / 2)]"
proof -
  obtain gs g' where t: "train_model lib_c1 () X_c1 y_c1 = Some (gs, g')"
    by (simp add: train_model_c1)
  have b: "best_params gs = (300, 25)"
    using trainer_selects_from_grid_in_force [of lib_c1 "()" X_c1 y_c1] t by blast
  have "cv_results gs = [((300, 25), 1 / 2)]"
    using t by (auto simp add: train_model_c1)
  then show ?thesis using t b by simp
qed

text \<open>
  The claim as the specification states it fails: with cross-validated scores that favour
  \<open>(50, 10)\<close>, a pair of the grid of twenty, the trainer still selects \<open>(300, 25)\<close>, whose
  mean score is lower.
\<close>

theorem trainer_ignores_full_grid:
  "map_option (best_params \<circ> fst) (train_model lib_c1 () X_c1 y_c1) = Some (300, 25)
   \<and> (50, 10) \<in> set (ParameterGrid full_grid)
   \<and> mean_test_score lib_c1 () 5 (300, 25) X_c1 y_c1 = Some (1 / 2)
   \<and> mean_test_score lib_c1 () 5 (50, 10) X_c1 y_c1 = Some (9 / 10)
   \<and> (1 / 2 :: real) < 9 / 10"
  by (simp add: train_model_c1 mean_test_score_c1 full_grid_def ParameterGrid_def)

subsection \<open>Relative pitch height\<close>

lemma those_map_Some:
  "those (map g xs) = Some ys \<Longrightarrow> ys = map (\<lambda>x. the (g x)) xs \<and> (\<forall>x \<in> set xs. g x \<noteq> None)"
  by (induction xs arbitrary: ys) (auto split: option.splits)


lemma getcol_Some: "getcol df c = Some s \<longleftrightarrow> c \<in> set (columns df) \<and> s = map (\<lambda>i. (i, val df i c)) (index df)"
  by (auto simp add: getcol_def)


text \<open>
  An operation on two columns of one table, or on two Series computed from one table,
  works row by row and keeps the labels.
\<close>

lemma series_binop_rows:
  assumes "series_binop f (map (\<lambda>i. (i, a i)) idx) (map (\<lambda>i. (i, b i)) idx) = Some r"
  shows "r = map (\<lambda>i. (i, the (f (a i) (b i)))) idx \<and> (\<forall>i \<in> set idx. f (a i) (b i) \<noteq> None)"
proof -
  let ?g = "\<lambda>i. map_option (Pair i) (f (a i) (b i))"
  have eq: "map (\<lambda>(i, x). map_option (Pair i) (f x (series_at (map (\<lambda>i. (i, b i)) idx) i)))
              (map (\<lambda>i. (i, a i)) idx) = map ?g idx"
    by (simp add: series_at_def map_of_graph)
  have "those (map ?g idx) = Some r"
    using assms by (simp only: series_binop_def eq)
  from those_map_Some [OF this] show ?thesis
    by (auto simp add: option.map_sel)
qed


lemma pow2_powr: "pow2 k = 2 powr (real_of_int k)"
proof (cases "0 \<le> k")
  case True
  then have "real_of_int k = real (nat k)" by simp
  then show ?thesis using True by (simp add: pow2_def powr_realpow del: of_nat_nat)
next
  case False
  then have "real_of_int k = - real (nat (- k))" by simp
  then show ?thesis using False by (simp add: pow2_def powr_minus powr_realpow inverse_eq_divide del: of_nat_nat)
qed

lemma pow2_pos: "0 < pow2 k"
  by (simp add: pow2_powr)

lemma pow2_step: "pow2 (k + 1) = 2 * pow2 k" "pow2 (k - 1) = pow2 k / 2"
  by (simp_all add: pow2_powr powr_add powr_diff)

lemma pow2_nat_bounds: "1 \<le> pow2 (int n)" "pow2 (- int n) \<le> 1"
  by (simp_all add: pow2_def field_simps)

text \<open>
  With enough steps the exponent is the one of the binade of \<open>x\<close>: 1100 steps are enough
  for every \<open>x\<close> from \<open>2^-1100\<close> up to \<open>2^1101\<close>.
\<close>

lemma exponent_binade:
  "pow2 (- int n) \<le> x \<Longrightarrow> x < 2 * pow2 (int n) \<Longrightarrow>
     pow2 (exponent n x) \<le> x \<and> x < 2 * pow2 (exponent n x)"
proof (induction n arbitrary: x)
  case 0
  then show ?case by (simp add: pow2_def)
next
  case (Suc n)
  have "- int (Suc n) = - int n - 1" "int (Suc n) = int n + 1" by simp_all
  then have s: "pow2 (- int (Suc n)) = pow2 (- int n) / 2" "pow2 (int (Suc n)) = 2 * pow2 (int n)"
    by (simp_all only: pow2_step)
  show ?case
  proof (cases "x < 1")
    case True
    have "pow2 (- int n) \<le> 2 * x" using Suc.prems(1) s(1) by simp
    moreover have "2 * x < 2 * pow2 (int n)" using True pow2_nat_bounds(1) [of n] by simp
    ultimately have "pow2 (exponent n (2 * x)) \<le> 2 * x \<and> 2 * x < 2 * pow2 (exponent n (2 * x))"
      by (rule Suc.IH)
    then show ?thesis using True by (simp add: pow2_step(2))
  next
    case False
    show ?thesis
    proof (cases "2 \<le> x")
      case True
      have "pow2 (- int n) \<le> x / 2" using True pow2_nat_bounds(2) [of n] by simp
      moreover have "x / 2 < 2 * pow2 (int n)" using Suc.prems(2) s(2) by simp
      ultimately have "pow2 (exponent n (x / 2)) \<le> x / 2 \<and> x / 2 < 2 * pow2 (exponent n (x / 2))"
        by (rule Suc.IH)
      then show ?thesis using True False by (simp add: pow2_step(1))
    next
      case f: False
      then show ?thesis using False by (simp add: pow2_def)
    qed
  qed
qed


















subsection \<open>The notebook, stage by stage\<close>

lemma notebook_stages:
  assumes "notebook L b g y1 y2 y3 = Some out"
  shows "\<exists>dt1 dt clean X0 X_test y0 Xtr Xval ytr yval g1 gs g2 pp pr.
     add_swing (load_train y1 y2) = Some dt1 \<and>
     add_relative_pitch_height dt1 = Some dt \<and>
     add_relative_pitch_height (snd (clean_season3 (read_csv y3))) = Some clean \<and>
     encode_train dt = Some X0 \<and>
     encode_test X0 clean = Some X_test \<and>
     getcol dt ''swing'' = Some y0 \<and>
     train_test_split L g X0 y0 (1 / 5) (Some 21) = Some ((Xtr, Xval, ytr, yval), g1) \<and>
     train_model L g1 Xtr ytr = Some (gs, g2) \<and>
     predict_proba L (best_estimator gs) Xval = Some pp \<and>
     predict L (best_estimator gs) Xval = Some pr \<and>
     score_season3 L (best_estimator gs) X_test (fst (clean_season3 (read_csv y3))) clean
       = Some (validation_csv out) \<and>
     vif_data out = (if b then Some (calculate_vifs L Xtr) else None) \<and>
     selected_params out = best_params gs \<and>
     best_model_pkl out = best_estimator gs \<and>
     y_pred_proba out = pp \<and> y_pred out = pr \<and>
     roc_auc_score L (map snd yval) pp = Some (roc_auc out) \<and>
     accuracy out = accuracy_score (map snd yval) pr"
  using assms unfolding notebook_def Let_def
  by (auto split: bind_splits prod.splits)

subsection \<open>The multicollinearity check\<close>

lemma evaluate_candidates_vif:
  "evaluate_candidates (L\<lparr>variance_inflation_factor := v\<rparr>) g cv X y ps =
     evaluate_candidates L g cv X y ps"
  by (induction ps arbitrary: g) simp_all

lemma vif_irrelevant:
  "train_test_split (L\<lparr>variance_inflation_factor := v\<rparr>) = train_test_split L"
  "train_model (L\<lparr>variance_inflation_factor := v\<rparr>) = train_model L"
  "predict_proba (L\<lparr>variance_inflation_factor := v\<rparr>) = predict_proba L"
  "predict (L\<lparr>variance_inflation_factor := v\<rparr>) = predict L"
  "score_season3 (L\<lparr>variance_inflation_factor := v\<rparr>) = score_season3 L"
  "roc_auc_score (L\<lparr>variance_inflation_factor := v\<rparr>) = roc_auc_score L"
  by (simp_all add: fun_eq_iff train_test_split_def train_model_def GridSearchCV_fit_def
      evaluate_candidates_vif predict_proba_def predict_def score_season3_def Let_def
      split: option.splits)

text \<open>
  C7. The multicollinearity check is diagnostic only. Take two runs on the same files and
  the same state of the random generator, in which the variance inflation factor returns
  different values, or in which the cell of the check is run in one and skipped in the
  other: both runs fail or both return, and then everything but the printed table of the
  check is the same, the selected parameters, the fitted model, the predictions and
  metrics on the validation split, and the written season-3 file.
\<close>

theorem vif_is_diagnostic:
  "map_option downstream (notebook (L\<lparr>variance_inflation_factor := v1\<rparr>) b1 g y1 y2 y3) =
     map_option downstream (notebook (L\<lparr>variance_inflation_factor := v2\<rparr>) b2 g y1 y2 y3)"
proof -
  have "map_option downstream (notebook (L\<lparr>variance_inflation_factor := v1\<rparr>) b1 g y1 y2 y3) =
     map_option downstream (notebook L False g y1 y2 y3)"
    by (simp add: notebook_def vif_irrelevant Let_def map_option_bind comp_def split_def
      downstream_def)
  also have "\<dots> = map_option downstream (notebook (L\<lparr>variance_inflation_factor := v2\<rparr>) b2 g y1 y2 y3)"
    by (simp add: notebook_def vif_irrelevant Let_def map_option_bind comp_def split_def
      downstream_def)
  finally show ?thesis .
qed

text \<open>What the check prints does depend on the variance inflation factor.\<close>

lemma vif_data_printed:
  assumes "notebook L True g y1 y2 y3 = Some out"
  shows "\<exists>X_train. vif_data out = Some (calculate_vifs L X_train)"
  using notebook_stages [OF assms] by auto

subsection \<open>The validation split\<close>

lemma split_ignores_global_generator:
  "map_option fst (train_test_split L g1 X y t (Some seed)) =
     map_option fst (train_test_split L g2 X y t (Some seed))"
  by (simp add: train_test_split_def Let_def map_option_bind comp_def split_def)

lemma split_keeps_global_generator:
  "train_test_split L g X y t (Some seed) = Some (r, g') \<Longrightarrow> g' = g"
  by (auto simp add: train_test_split_def Let_def split: if_splits bind_splits)

lemma fifth_less: "2 \<le> n \<Longrightarrow> nat \<lceil>1 / 5 * real n\<rceil> < n"
  by linarith

lemma iloc_Some:
  "\<forall>k \<in> set ps. k < length (index df) \<Longrightarrow> iloc df ps = Some (df\<lparr>index := map (\<lambda>p. index df ! p) ps\<rparr>)"
  by (simp add: iloc_def list_all_iff)

lemma iloc_series_Some:
  "\<forall>k \<in> set ps. k < length s \<Longrightarrow> iloc_series s ps = Some (map (\<lambda>p. s ! p) ps)"
  by (simp add: iloc_series_def list_all_iff)

lemma split_seeded_result:
  assumes "length y = length (index X)"
    and t: "n_test = nat \<lceil>t * real (length (index X))\<rceil>"
    and "n_test < length (index X)"
    and p: "p = fst (permutation L (RandomState L seed) (length (index X)))"
    and v: "\<forall>k \<in> set p. k < length (index X)"
  shows "train_test_split L g X y t (Some seed) =
      Some ((X\<lparr>index := map (\<lambda>k. index X ! k) (take (length (index X) - n_test) (drop n_test p))\<rparr>,
             X\<lparr>index := map (\<lambda>k. index X ! k) (take n_test p)\<rparr>,
             map (\<lambda>k. y ! k) (take (length (index X) - n_test) (drop n_test p)),
             map (\<lambda>k. y ! k) (take n_test p)), g)"
proof -
  have v1: "\<forall>k \<in> set (take n_test p). k < length (index X)"
    using v by (auto dest: in_set_takeD)
  have v2: "\<forall>k \<in> set (take (length (index X) - n_test) (drop n_test p)). k < length (index X)"
    using v by (auto dest!: in_set_takeD in_set_dropD)
  have w1: "\<forall>k \<in> set (take n_test p). k < length y" using v1 assms(1) by simp
  have w2: "\<forall>k \<in> set (take (length (index X) - n_test) (drop n_test p)). k < length y"
    using v2 assms(1) by simp
  show ?thesis
    unfolding train_test_split_def Let_def t [symmetric]
    using assms(1,3)
    by (simp add: p [symmetric] iloc_Some [OF v1] iloc_Some [OF v2]
        iloc_series_Some [OF w1] iloc_series_Some [OF w2])
qed

text \<open>
  C8. The split of the notebook, with test size one fifth and seed 21, does not read the
  global random generator and does not advance it: two runs that start from different
  generator states split the same table into the same two sides. When the seeded
  permutation is a list of \<open>n\<close> valid positions and the table has \<open>n \<ge> 2\<close> rows, the
  split returns, the validation side has \<open>ceil(n / 5)\<close> rows and the training side the
  other \<open>n - ceil(n / 5)\<close> rows.
\<close>

theorem split_is_seeded_and_one_fifth:
  "map_option fst (train_test_split L g1 X y (1 / 5) (Some 21)) =
     map_option fst (train_test_split L g2 X y (1 / 5) (Some 21))
   \<and> (length (fst (permutation L (RandomState L 21) (length (index X)))) = length (index X) \<and>
      (\<forall>k \<in> set (fst (permutation L (RandomState L 21) (length (index X)))). k < length (index X)) \<and>
      length y = length (index X) \<and> 2 \<le> length (index X) \<longrightarrow>
      (\<exists>X_train X_val y_train y_val.
         train_test_split L g1 X y (1 / 5) (Some 21) = Some ((X_train, X_val, y_train, y_val), g1) \<and>
         train_test_split L g2 X y (1 / 5) (Some 21) = Some ((X_train, X_val, y_train, y_val), g2) \<and>
         length (index X_val) = nat \<lceil>real (length (index X)) / 5\<rceil> \<and>
         length (index X_train) = length (index X) - nat \<lceil>real (length (index X)) / 5\<rceil> \<and>
         length y_val = length (index X_val) \<and> length y_train = length (index X_train)))"
proof (intro conjI impI)
  show "map_option fst (train_test_split L g1 X y (1 / 5) (Some 21)) =
     map_option fst (train_test_split L g2 X y (1 / 5) (Some 21))"
    by (rule split_ignores_global_generator)
next
  let ?n = "length (index X)"
  let ?p = "fst (permutation L (RandomState L 21) ?n)"
  let ?t = "nat \<lceil>1 / 5 * real ?n\<rceil>"
  assume a: "length ?p = ?n \<and> (\<forall>k \<in> set ?p. k < ?n) \<and> length y = ?n \<and> 2 \<le> ?n"
  then have lt: "?t < ?n" using fifth_less by blast
  have r: "train_test_split L g X y (1 / 5) (Some 21) =
      Some ((X\<lparr>index := map (\<lambda>k. index X ! k) (take (?n - ?t) (drop ?t ?p))\<rparr>,
             X\<lparr>index := map (\<lambda>k. index X ! k) (take ?t ?p)\<rparr>,
             map (\<lambda>k. y ! k) (take (?n - ?t) (drop ?t ?p)),
             map (\<lambda>k. y ! k) (take ?t ?p)), g)" for g
    using a lt by (intro split_seeded_result) simp_all
  show "\<exists>X_train X_val y_train y_val.
         train_test_split L g1 X y (1 / 5) (Some 21) = Some ((X_train, X_val, y_train, y_val), g1) \<and>
         train_test_split L g2 X y (1 / 5) (Some 21) = Some ((X_train, X_val, y_train, y_val), g2) \<and>
         length (index X_val) = nat \<lceil>real ?n / 5\<rceil> \<and>
         length (index X_train) = ?n - nat \<lceil>real ?n / 5\<rceil> \<and>
         length y_val = length (index X_val) \<and> length y_train = length (index X_train)"
    using a lt by (simp add: r min_def)
qed

lemma split_c1_seeded:
  "map_option (\<lambda>((X_train, X_val, y_train, y_val), g). (index X_train, index X_val, y_val))
     (train_test_split lib_global 4 X_c1 y_c1 (1 / 5) (Some 21))
     = Some ([7, 6, 5, 4, 3, 2, 1, 0], [9, 8], [(9, Num 0), (8, Num 1)])"
  by code_simp

theorem split_is_seeded_and_one_fifth_witness:
  "length (index X_c1) = 10
   \<and> map_option (\<lambda>((X_train, X_val, y_train, y_val), g). (index X_train, index X_val, y_val))
     (train_test_split lib_global 4 X_c1 y_c1 (1 / 5) (Some 21))
     = Some ([7, 6, 5, 4, 3, 2, 1, 0], [9, 8], [(9, Num 0), (8, Num 1)])
   \<and> map_option fst (train_test_split lib_global 4 X_c1 y_c1 (1 / 5) (Some 21)) =
     map_option fst (train_test_split lib_global 7 X_c1 y_c1 (1 / 5) (Some 21))
   \<and> map_option (\<lambda>((X_train, X_val, y_train, y_val), g).
        (length (index X_train), length (index X_val)))
     (train_test_split lib_global 7 X_c1 y_c1 (1 / 5) (Some 21)) = Some (8, 2)"
proof -
  have n: "length (index X_c1) = 10" "length y_c1 = 10" by (simp_all add: X_c1_def y_c1_def)
  have p: "fst (permutation lib_global (RandomState lib_global 21) 10)
             = [9, 8, 7, 6, 5, 4, 3, 2, 1, 0]"
    by code_simp
  have c: "nat \<lceil>(10 :: real) / 5\<rceil> = 2" by linarith
  note t = split_is_seeded_and_one_fifth [of lib_global 4 X_c1 y_c1 7]
  obtain X_train X_val y_train y_val where
    "train_test_split lib_global 7 X_c1 y_c1 (1 / 5) (Some 21)
       = Some ((X_train, X_val, y_train, y_val), 7)"
    and "length (index X_val) = 2" "length (index X_train) = 8"
    using t [THEN conjunct2] by (auto simp add: n p c)
  then show ?thesis
    using t [THEN conjunct1] split_c1_seeded n by simp
qed

text \<open>Without a seed the split would depend on the global generator.\<close>

lemma unseeded_split_depends_on_generator:
  "map_option (\<lambda>((X_train, X_val, y_train, y_val), g). index X_val)
     (train_test_split lib_global 4 X_c1 y_c1 (1 / 5) None) = Some [0, 1]
   \<and> map_option (\<lambda>((X_train, X_val, y_train, y_val), g). index X_val)
     (train_test_split lib_global 7 X_c1 y_c1 (1 / 5) None) = Some [9, 8]"
  by code_simp

subsection \<open>One-hot encoding and column alignment\<close>

lemma feature_prefix_free:
  "\<forall>c \<in> set features. \<forall>c' \<in> set features. \<forall>l l'. c @ ''_'' @ l = c' @ ''_'' @ l' \<longrightarrow> c = c'"
  by (simp add: features_def)

lemma feature_not_dummy:
  "\<forall>c \<in> set features. \<forall>c' \<in> set features. \<forall>l. c @ ''_'' @ l \<noteq> c'"
  by (simp add: features_def)

lemma distinct_features: "distinct features"
  by (simp add: features_def)

lemma distinct_concat_map:
  assumes "distinct cs" and "\<forall>c \<in> set cs. distinct (f c)"
    and "\<forall>c \<in> set cs. \<forall>c' \<in> set cs. c \<noteq> c' \<longrightarrow> set (f c) \<inter> set (f c') = {}"
  shows "distinct (concat (map f cs))"
  using assms by (induction cs) auto

lemma distinct_levels: "distinct (levels df c)"
  by (simp add: levels_def)

lemma dummy_names:
  "map fst (dummy_columns df c) = map (\<lambda>l. c @ ''_'' @ l) (tl (levels df c))"
  by (simp add: dummy_columns_def comp_def)

lemma distinct_dummy_names: "distinct (map fst (dummy_columns df c))"
  unfolding dummy_names
  by (simp add: distinct_map distinct_tl distinct_levels inj_on_def)

lemma columns_get_dummies:
  "columns (get_dummies df) =
     filter (\<lambda>c. \<not> is_object df c) (columns df)
     @ concat (map (\<lambda>c. map fst (dummy_columns df c)) (filter (is_object df) (columns df)))"
  by (simp add: get_dummies_def Let_def map_concat comp_def)

text \<open>
  No two columns of the encoded feature table have the same label, so the reindexing
  never meets a duplicate label.
\<close>

lemma distinct_encoded_columns:
  assumes "columns df = features"
  shows "distinct (columns (get_dummies df))"
proof -
  let ?plain = "filter (\<lambda>c. \<not> is_object df c) features"
  let ?enc = "filter (is_object df) features"
  let ?f = "\<lambda>c. map fst (dummy_columns df c)"
  have names: "\<exists>l. n = c @ ''_'' @ l" if "n \<in> set (?f c)" for n c
    using that unfolding dummy_names by auto
  have 1: "distinct ?plain" using distinct_features by simp
  have 2: "distinct (concat (map ?f ?enc))"
  proof (rule distinct_concat_map)
    show "distinct ?enc" using distinct_features by simp
    show "\<forall>c \<in> set ?enc. distinct (?f c)" by (simp add: distinct_dummy_names)
    show "\<forall>c \<in> set ?enc. \<forall>c' \<in> set ?enc. c \<noteq> c' \<longrightarrow> set (?f c) \<inter> set (?f c') = {}"
    proof (intro ballI impI)
      fix c c' assume c: "c \<in> set ?enc" "c' \<in> set ?enc" and ne: "c \<noteq> c'"
      show "set (?f c) \<inter> set (?f c') = {}"
      proof (rule ccontr)
        assume "set (?f c) \<inter> set (?f c') \<noteq> {}"
        then obtain n where "n \<in> set (?f c)" "n \<in> set (?f c')" by blast
        then obtain l l' where "n = c @ ''_'' @ l" "n = c' @ ''_'' @ l'"
          using names by blast
        then have "c @ ''_'' @ l = c' @ ''_'' @ l'" by simp
        moreover have "c \<in> set features" "c' \<in> set features" using c by simp_all
        ultimately show False using feature_prefix_free ne by blast
      qed
    qed
  qed
  have 3: "set ?plain \<inter> set (concat (map ?f ?enc)) = {}"
  proof (rule ccontr)
    assume "set ?plain \<inter> set (concat (map ?f ?enc)) \<noteq> {}"
    then obtain n c where n: "n \<in> set ?plain" "c \<in> set ?enc" "n \<in> set (?f c)" by auto
    then obtain l where l: "n = c @ ''_'' @ l" using names by blast
    have "c \<in> set features" "n \<in> set features" using n by simp_all
    then show False using feature_not_dummy l by blast
  qed
  show ?thesis
    using 1 2 3 by (simp add: columns_get_dummies assms)
qed

lemma encode_test_returns:
  assumes "set features \<subseteq> set (columns clean)"
  shows "encode_test X_train clean =
           Some \<lparr>columns = columns X_train, index = index clean,
                  val = (\<lambda>i c. if c \<in> set (columns (get_dummies (clean\<lparr>columns := features\<rparr>)))
                                then val (get_dummies (clean\<lparr>columns := features\<rparr>)) i c
                                else Num 0)\<rparr>"
proof -
  have "distinct (columns (get_dummies (clean\<lparr>columns := features\<rparr>)))"
    by (rule distinct_encoded_columns) simp
  moreover have "index (get_dummies (clean\<lparr>columns := features\<rparr>)) = index clean"
    by (simp add: get_dummies_def Let_def)
  ultimately show ?thesis
    using assms by (simp add: encode_test_def select_columns_def reindex_columns_def)
qed

lemma encode_test_fails:
  "\<not> set features \<subseteq> set (columns clean) \<Longrightarrow> encode_test X_train clean = None"
  by (simp add: encode_test_def select_columns_def)

text \<open>
  C4. Whenever the clean season-3 table has the feature columns (otherwise selecting them
  raises KeyError), encoding and reindexing return a table with exactly the columns of the
  encoded training table, in their order, and so with as many columns. A training column
  that the encoded season-3 table lacks is 0 in every row, a column that both have keeps
  the encoded season-3 values, and an encoded season-3 column that training lacks is not
  in the result. The rows are those of the clean table.
\<close>

theorem scoring_columns_match_training:
  assumes "set features \<subseteq> set (columns clean)"
  shows "\<exists>E X. map_option get_dummies (select_columns clean features) = Some E
           \<and> encode_test X_train clean = Some X
           \<and> columns X = columns X_train
           \<and> length (columns X) = length (columns X_train)
           \<and> index X = index clean
           \<and> (\<forall>c \<in> set (columns X_train). \<forall>i.
                 (c \<notin> set (columns E) \<longrightarrow> val X i c = Num 0) \<and>
                 (c \<in> set (columns E) \<longrightarrow> val X i c = val E i c))
           \<and> (\<forall>c \<in> set (columns E). c \<notin> set (columns X_train) \<longrightarrow> c \<notin> set (columns X))"
  using assms by (simp add: encode_test_returns [OF assms] select_columns_def)

subsection \<open>The season-3 tables\<close>

lemma position_nth:
  "i \<in> set idx \<Longrightarrow> position idx i < length idx \<and> idx ! position idx i = i"
  by (induction idx) (auto simp add: position_def)

lemma zip_graph: "zip cs (map f cs) = map (\<lambda>x. (x, f x)) cs"
  by (induction cs) auto

lemma cell_of_row_map:
  "c \<in> set cs \<Longrightarrow> cell_of_row cs (map f cs) c = f c"
  by (simp add: cell_of_row_def zip_graph map_of_graph)

lemma full_season3_simps:
  "columns (fst (clean_season3 (read_csv y))) = with_column (header y) ''SwingProbability''"
  "index (fst (clean_season3 (read_csv y))) = [0..<length (body y)]"
  "val (fst (clean_season3 (read_csv y))) i c =
     (if c = ''SwingProbability'' then Num (1 / 2)
      else if i < length (body y) then cell_of_row (header y) (body y ! i) c else NaN)"
  by (simp_all add: clean_season3_def setcol_scalar_def read_csv_def Let_def)

lemma clean_season3_snd: "snd (clean_season3 df) = dropna (fst (clean_season3 df))"
  by (simp add: clean_season3_def Let_def)

lemma add_relative_pitch_height_Some:
  assumes "add_relative_pitch_height df = Some df'"
  shows "columns df' = with_column (columns df) ''relative_pitch_height''"
    and "index df' = index df"
    and "c \<noteq> ''relative_pitch_height'' \<Longrightarrow> val df' i c = val df i c"
proof -
  obtain s where "df' = setcol_series df ''relative_pitch_height'' s"
    using assms by (auto simp add: add_relative_pitch_height_def split: bind_splits)
  then show "columns df' = with_column (columns df) ''relative_pitch_height''"
    and "index df' = index df"
    and "c \<noteq> ''relative_pitch_height'' \<Longrightarrow> val df' i c = val df i c"
    by (simp_all add: setcol_series_def)
qed

lemma index_get_dummies: "index (get_dummies df) = index df"
  by (simp add: get_dummies_def Let_def)

lemma encode_test_Some:
  assumes "encode_test X_train clean = Some X"
  shows "columns X = columns X_train" and "index X = index clean"
proof -
  obtain E where e: "select_columns clean features = Some E"
    and r: "reindex_columns (get_dummies E) (columns X_train) (Num 0) = Some X"
    using assms by (auto simp add: encode_test_def split: bind_splits)
  have "index E = index clean"
    using e by (auto simp add: select_columns_def split: if_splits)
  then show "columns X = columns X_train" and "index X = index clean"
    using r by (auto simp add: reindex_columns_def index_get_dummies split: if_splits)
qed

lemma season3_missing_iff:
  assumes "i < length (body y)"
  shows "isna_any (fst (clean_season3 (read_csv y))) i \<longleftrightarrow>
           (\<exists>c \<in> set (header y). c \<noteq> ''SwingProbability'' \<and> cell_of_row (header y) (body y ! i) c = NaN)"
  using assms
  by (auto simp add: isna_any_iff full_season3_simps with_column_def split: if_splits)

lemma set_with_column: "set (with_column cs c) = insert c (set cs)"
  by (auto simp add: with_column_def)

lemma setcol_array_Some:
  assumes "setcol_array df c xs = Some df'"
  shows "columns df' = with_column (columns df) c" and "index df' = index df"
    and "val df' i c = xs ! position (index df) i"
    and "c' \<noteq> c \<Longrightarrow> val df' i c' = val df i c'"
  using assms by (auto simp add: setcol_array_def split: if_splits)

lemma predict_proba_Some:
  assumes "predict_proba L m X = Some proba"
  shows "index X \<noteq> []"
    and "proba = map (\<lambda>i. the (forest_proba L m (row_values X i))) (index X)"
    and "\<forall>i \<in> set (index X). forest_proba L m (row_values X i) \<noteq> None"
  using assms those_map_Some [of "\<lambda>i. forest_proba L m (row_values X i)" "index X" proba]
  by (auto simp add: predict_proba_def split: if_splits)

lemma validation_cells:
  assumes rph: "add_relative_pitch_height (snd (clean_season3 (read_csv y))) = Some clean"
    and ix: "index X_test = index clean"
    and sc: "score_season3 L m X_test (fst (clean_season3 (read_csv y))) clean = Some v"
  shows "header v = with_column (header y) ''SwingProbability''"
    and "length (body v) = length (body y)"
    and "index clean =
           filter (\<lambda>i. \<not> isna_any (fst (clean_season3 (read_csv y))) i) [0..<length (body y)]"
    and "i < length (body y) \<Longrightarrow> i \<in> set (index clean) \<Longrightarrow>
           \<exists>p. forest_proba L m (row_values X_test i) = Some p \<and>
               cell_of_row (header v) (body v ! i) ''SwingProbability'' = Num p"
    and "i < length (body y) \<Longrightarrow> i \<notin> set (index clean) \<Longrightarrow>
           cell_of_row (header v) (body v ! i) ''SwingProbability'' = Num (1 / 2)"
    and "i < length (body y) \<Longrightarrow> c \<in> set (header y) \<Longrightarrow> c \<noteq> ''SwingProbability'' \<Longrightarrow>
           c \<noteq> ''relative_pitch_height'' \<Longrightarrow>
           cell_of_row (header v) (body v ! i) c = cell_of_row (header y) (body y ! i) c"
proof -
  let ?s3 = "fst (clean_season3 (read_csv y))"
  let ?f = "\<lambda>i. the (forest_proba L m (row_values X_test i))"
  obtain proba clean' where p: "predict_proba L m X_test = Some proba"
    and c': "setcol_array clean ''SwingProbability'' (map Num proba) = Some clean'"
    and v: "v = to_csv (update ?s3 clean')"
    using sc by (auto simp add: score_season3_def Let_def split: bind_splits)
  have proba: "proba = map ?f (index clean)"
    using predict_proba_Some(2) [OF p] ix by simp
  have ret: "forest_proba L m (row_values X_test i) \<noteq> None" if "i \<in> set (index clean)" for i
    using predict_proba_Some(3) [OF p] ix that by simp
  have ic: "index clean = filter (\<lambda>i. \<not> isna_any ?s3 i) [0..<length (body y)]"
    using add_relative_pitch_height_Some(2) [OF rph]
    by (simp add: clean_season3_snd dropna_simps full_season3_simps)
  then show "index clean = filter (\<lambda>i. \<not> isna_any ?s3 i) [0..<length (body y)]" .
  show h: "header v = with_column (header y) ''SwingProbability''"
    by (simp add: v to_csv_def update_def full_season3_simps)
  show "length (body v) = length (body y)"
    by (simp add: v to_csv_def update_def full_season3_simps)
  have row: "body v ! i = map (val (update ?s3 clean') i) (header v)" if "i < length (body y)" for i
    using that by (simp add: v to_csv_def update_def full_season3_simps row_values_def)
  have cell: "cell_of_row (header v) (body v ! i) c = val (update ?s3 clean') i c"
    if "i < length (body y)" "c \<in> set (header v)" for i c
    using that by (simp add: row cell_of_row_map)
  have sp: "val clean' i ''SwingProbability'' = Num (?f i)" if "i \<in> set (index clean)" for i
    using position_nth [OF that] setcol_array_Some(3) [OF c'] by (simp add: proba)
  have other: "val clean' i c = val ?s3 i c"
    if "c \<noteq> ''SwingProbability''" "c \<noteq> ''relative_pitch_height''" for i c
    using that setcol_array_Some(4) [OF c'] add_relative_pitch_height_Some(3) [OF rph]
    by (simp add: clean_season3_snd dropna_simps)
  have cols: "''SwingProbability'' \<in> set (columns clean')"
    using setcol_array_Some(1) [OF c'] by (simp add: with_column_def)
  have idx: "index clean' = index clean"
    using setcol_array_Some(2) [OF c'] .
  have sph: "''SwingProbability'' \<in> set (header v)"
    by (simp add: h with_column_def)
  show "\<exists>p. forest_proba L m (row_values X_test i) = Some p \<and>
            cell_of_row (header v) (body v ! i) ''SwingProbability'' = Num p"
    if i: "i < length (body y)" and m: "i \<in> set (index clean)"
  proof -
    have "cell_of_row (header v) (body v ! i) ''SwingProbability'' = Num (?f i)"
      using cell [OF i sph] sp [OF m] cols i m
      by (simp add: update_def idx isna_def full_season3_simps set_with_column)
    then show ?thesis using ret [OF m] by auto
  qed
  show "cell_of_row (header v) (body v ! i) ''SwingProbability'' = Num (1 / 2)"
    if i: "i < length (body y)" and m: "i \<notin> set (index clean)"
    using cell [OF i sph] i m
    by (simp add: update_def idx full_season3_simps)
  show "cell_of_row (header v) (body v ! i) c = cell_of_row (header y) (body y ! i) c"
    if i: "i < length (body y)" and c: "c \<in> set (header y)" "c \<noteq> ''SwingProbability''"
      "c \<noteq> ''relative_pitch_height''" for i c
  proof -
    have "c \<in> set (header v)" using c(1) by (simp add: h with_column_def)
    from cell [OF i this] show ?thesis
      using other [OF c(2,3), of i] i c(2) by (simp add: update_def full_season3_simps)
  qed
qed

text \<open>The example run returns and writes this file.\<close>

lemma notebook_ex_returns:
  "notebook lib_c1 True () year1_ex year2_ex year3_ex \<noteq> None"
  by code_simp

lemma notebook_ex_file:
  "map_option validation_csv (notebook lib_c1 True () year1_ex year2_ex year3_ex) =
     Some \<lparr>header = pitch_header @ [''SwingProbability''],
           body =
       [[Num 96, Num 0, Str ''L'', Str ''R'', Num 1, Num 1, Num 0, Num 0,
         Str ''KN'', Num 2, Num 1, Num 3, Str ''ball'', Num (9 / 10)],
        [Num 88, Num 1, Str ''R'', Str ''R'', Num 0, NaN, Num 1, Num 2,
         Str ''SL'', Num 4, Num 1, Num 3, Str ''foul'', Num (1 / 2)],
        [Num 80, Num 1, Str ''R'', Str ''R'', Num 0, Num 1, Num 1, Num 2,
         Str ''SW'', Num 4, Num 1, Num 3, Str ''foul'', Num (1 / 10)]]\<rparr>"
  by code_simp

subsection \<open>The written season-3 file\<close>

lemma notebook_season3:
  assumes "notebook L b g year1 year2 year3 = Some out"
  obtains clean X_train X_test where
    "add_relative_pitch_height (snd (clean_season3 (read_csv year3))) = Some clean"
    "encode_test X_train clean = Some X_test"
    "score_season3 L (best_model_pkl out) X_test (fst (clean_season3 (read_csv year3))) clean
       = Some (validation_csv out)"
  using notebook_stages [OF assms] by force

text \<open>
  C5. The written season-3 file has as many rows as the raw season-3 file. A row with a
  missing value (in a column other than \<open>SwingProbability\<close>, which the run fills
  with 0.5 before it drops rows) carries exactly 0.5; a row without one carries the
  probability the selected model gives its feature row, which lies in \<open>[0, 1]\<close> when the
  model's probabilities do.
\<close>

theorem season3_output_rows:
  assumes "notebook L b g year1 year2 year3 = Some out"
    and "\<forall>m x p. forest_proba L m x = Some p \<longrightarrow> 0 \<le> p \<and> p \<le> 1"
  shows "length (body (validation_csv out)) = length (body year3)
     \<and> (\<forall>i < length (body year3).
          ((\<exists>c \<in> set (header year3). c \<noteq> ''SwingProbability'' \<and>
              cell_of_row (header year3) (body year3 ! i) c = NaN) \<longrightarrow>
           cell_of_row (header (validation_csv out)) (body (validation_csv out) ! i)
             ''SwingProbability'' = Num (1 / 2)) \<and>
          ((\<forall>c \<in> set (header year3). c \<noteq> ''SwingProbability'' \<longrightarrow>
              cell_of_row (header year3) (body year3 ! i) c \<noteq> NaN) \<longrightarrow>
           (\<exists>x p. forest_proba L (best_model_pkl out) x = Some p \<and>
                  cell_of_row (header (validation_csv out)) (body (validation_csv out) ! i)
                    ''SwingProbability'' = Num p \<and>
                  0 \<le> p \<and> p \<le> 1)))"
proof -
  let ?s3 = "fst (clean_season3 (read_csv year3))"
  let ?v = "validation_csv out"
  obtain clean X_train X_test where
    r: "add_relative_pitch_height (snd (clean_season3 (read_csv year3))) = Some clean"
    and e: "encode_test X_train clean = Some X_test"
    and s: "score_season3 L (best_model_pkl out) X_test ?s3 clean = Some ?v"
    using notebook_season3 [OF assms(1)] by blast
  note cells = validation_cells [OF r encode_test_Some(2) [OF e] s]
  have mem: "i \<in> set (index clean) \<longleftrightarrow> \<not> isna_any ?s3 i" if "i < length (body year3)" for i
    using that by (simp add: cells(3))
  have "(\<exists>c \<in> set (header year3). c \<noteq> ''SwingProbability'' \<and>
              cell_of_row (header year3) (body year3 ! i) c = NaN) \<longrightarrow>
           cell_of_row (header ?v) (body ?v ! i) ''SwingProbability'' = Num (1 / 2)"
    if i: "i < length (body year3)" for i
    using cells(5) [OF i] mem [OF i] season3_missing_iff [OF i] by blast
  moreover have "(\<forall>c \<in> set (header year3). c \<noteq> ''SwingProbability'' \<longrightarrow>
              cell_of_row (header year3) (body year3 ! i) c \<noteq> NaN) \<longrightarrow>
           (\<exists>x p. forest_proba L (best_model_pkl out) x = Some p \<and>
                  cell_of_row (header ?v) (body ?v ! i) ''SwingProbability'' = Num p \<and>
                  0 \<le> p \<and> p \<le> 1)"
    if i: "i < length (body year3)" for i
  proof
    assume "\<forall>c \<in> set (header year3). c \<noteq> ''SwingProbability'' \<longrightarrow>
              cell_of_row (header year3) (body year3 ! i) c \<noteq> NaN"
    then have "i \<in> set (index clean)"
      using mem [OF i] season3_missing_iff [OF i] by blast
    from cells(4) [OF i this] obtain p where
      p: "forest_proba L (best_model_pkl out) (row_values X_test i) = Some p"
        "cell_of_row (header ?v) (body ?v ! i) ''SwingProbability'' = Num p"
      by blast
    then have "0 \<le> p \<and> p \<le> 1" using assms(2) by blast
    then show "\<exists>x p. forest_proba L (best_model_pkl out) x = Some p \<and>
                  cell_of_row (header ?v) (body ?v ! i) ''SwingProbability'' = Num p \<and>
                  0 \<le> p \<and> p \<le> 1"
      using p by blast
  qed
  ultimately show ?thesis
    using cells(2) by blast
qed

lemma lib_c1_proba_range:
  "\<forall>m x p. forest_proba lib_c1 m x = Some p \<longrightarrow> 0 \<le> p \<and> p \<le> 1"
  by (auto simp add: lib_c1_def split: list.splits cell.splits if_splits)

lemma notebook_ex: "notebook lib_c1 True () year1_ex year2_ex year3_ex = Some out_ex"
  using notebook_ex_returns by (auto simp add: out_ex_def)

lemma validation_ex:
  "validation_csv out_ex =
     \<lparr>header = pitch_header @ [''SwingProbability''],
      body =
       [[Num 96, Num 0, Str ''L'', Str ''R'', Num 1, Num 1, Num 0, Num 0,
         Str ''KN'', Num 2, Num 1, Num 3, Str ''ball'', Num (9 / 10)],
        [Num 88, Num 1, Str ''R'', Str ''R'', Num 0, NaN, Num 1, Num 2,
         Str ''SL'', Num 4, Num 1, Num 3, Str ''foul'', Num (1 / 2)],
        [Num 80, Num 1, Str ''R'', Str ''R'', Num 0, Num 1, Num 1, Num 2,
         Str ''SW'', Num 4, Num 1, Num 3, Str ''foul'', Num (1 / 10)]]\<rparr>"
  using notebook_ex_file by (simp add: notebook_ex)

lemma year3_ex_missing:
  "''pfx_z'' \<in> set (header year3_ex)"
  "cell_of_row (header year3_ex) (body year3_ex ! 1) ''pfx_z'' = NaN"
  "length (body year3_ex) = 3"
  by (simp_all add: year3_ex_def pitch_header_def cell_of_row_def)

theorem season3_output_rows_witness:
  "notebook lib_c1 True () year1_ex year2_ex year3_ex = Some out_ex
   \<and> length (body year3_ex) = 3 \<and> length (body (validation_csv out_ex)) = 3
   \<and> cell_of_row (header year3_ex) (body year3_ex ! 1) ''pfx_z'' = NaN
   \<and> cell_of_row (header (validation_csv out_ex)) (body (validation_csv out_ex) ! 1)
        ''SwingProbability'' = Num (1 / 2)
   \<and> cell_of_row (header (validation_csv out_ex)) (body (validation_csv out_ex) ! 0)
        ''SwingProbability'' = Num (9 / 10)"
proof -
  note rows = season3_output_rows [OF notebook_ex lib_c1_proba_range]
  have 1: "(1::nat) < length (body year3_ex)" by (simp add: year3_ex_missing)
  have m: "\<exists>c \<in> set (header year3_ex). c \<noteq> ''SwingProbability'' \<and>
             cell_of_row (header year3_ex) (body year3_ex ! 1) c = NaN"
    using year3_ex_missing(1,2) by (intro bexI [of _ "''pfx_z''"]) simp_all
  have a: "cell_of_row (header (validation_csv out_ex)) (body (validation_csv out_ex) ! 1)
        ''SwingProbability'' = Num (1 / 2)"
    using rows [THEN conjunct2, rule_format, OF 1, THEN conjunct1, rule_format, OF m] .
  have b: "length (body (validation_csv out_ex)) = 3"
    using rows [THEN conjunct1] by (simp only: year3_ex_missing(3))
  have c: "cell_of_row (header (validation_csv out_ex)) (body (validation_csv out_ex) ! 0)
        ''SwingProbability'' = Num (9 / 10)"
    by (simp add: validation_ex pitch_header_def cell_of_row_def)
  show ?thesis
    using notebook_ex year3_ex_missing(2,3) a b c by (intro conjI)
qed

text \<open>
  C9. On a raw season-3 file without a column \<open>relative_pitch_height\<close>, the written
  file has the columns of the raw file and \<open>SwingProbability\<close>, and nothing else:
  neither \<open>relative_pitch_height\<close> nor an indicator column is written. Every cell of
  every other column is the cell of the raw file in the same row.
\<close>

theorem merge_changes_only_swing_probability:
  assumes "notebook L b g year1 year2 year3 = Some out"
    and "''relative_pitch_height'' \<notin> set (header year3)"
  shows "header (validation_csv out) = with_column (header year3) ''SwingProbability''
     \<and> ''relative_pitch_height'' \<notin> set (header (validation_csv out))
     \<and> (\<forall>c \<in> set (header (validation_csv out)).
           c = ''SwingProbability'' \<or> c \<in> set (header year3))
     \<and> length (body (validation_csv out)) = length (body year3)
     \<and> (\<forall>i < length (body year3). \<forall>c \<in> set (header year3).
           c \<noteq> ''SwingProbability'' \<longrightarrow>
           cell_of_row (header (validation_csv out)) (body (validation_csv out) ! i) c =
             cell_of_row (header year3) (body year3 ! i) c)"
proof -
  let ?s3 = "fst (clean_season3 (read_csv year3))"
  let ?v = "validation_csv out"
  obtain clean X_train X_test where
    r: "add_relative_pitch_height (snd (clean_season3 (read_csv year3))) = Some clean"
    and e: "encode_test X_train clean = Some X_test"
    and s: "score_season3 L (best_model_pkl out) X_test ?s3 clean = Some ?v"
    using notebook_season3 [OF assms(1)] by blast
  note cells = validation_cells [OF r encode_test_Some(2) [OF e] s]
  have "cell_of_row (header ?v) (body ?v ! i) c = cell_of_row (header year3) (body year3 ! i) c"
    if "i < length (body year3)" "c \<in> set (header year3)" "c \<noteq> ''SwingProbability''" for i c
    using cells(6) [OF that] that(2) assms(2) by blast
  then show ?thesis
    using cells(1,2) assms(2) by (auto simp add: set_with_column)
qed

theorem merge_changes_only_swing_probability_witness:
  "notebook lib_c1 True () year1_ex year2_ex year3_ex = Some out_ex
   \<and> ''relative_pitch_height'' \<notin> set (header year3_ex)
   \<and> header (validation_csv out_ex) = header year3_ex @ [''SwingProbability'']
   \<and> cell_of_row (header (validation_csv out_ex)) (body (validation_csv out_ex) ! 2)
        ''pitch_type'' = Str ''SW''"
proof -
  have h: "''relative_pitch_height'' \<notin> set (header year3_ex)"
    "''SwingProbability'' \<notin> set (header year3_ex)" "''pitch_type'' \<in> set (header year3_ex)"
    "(2::nat) < length (body year3_ex)"
    by (simp_all add: year3_ex_def pitch_header_def)
  note m = merge_changes_only_swing_probability [OF notebook_ex h(1)]
  have a: "header (validation_csv out_ex) = header year3_ex @ [''SwingProbability'']"
    using m [THEN conjunct1] h(2) by (simp add: with_column_def)
  have "cell_of_row (header (validation_csv out_ex)) (body (validation_csv out_ex) ! 2)
          ''pitch_type'' = cell_of_row (header year3_ex) (body year3_ex ! 2) ''pitch_type''"
    using m [THEN conjunct2, THEN conjunct2, THEN conjunct2, THEN conjunct2, rule_format,
        OF h(4) h(3)] by simp
  moreover have "cell_of_row (header year3_ex) (body year3_ex ! 2) ''pitch_type'' = Str ''SW''"
    by (simp add: year3_ex_def pitch_header_def cell_of_row_def)
  ultimately show ?thesis
    using notebook_ex h(1) a by simp
qed

subsection \<open>Row alignment\<close>

lemma encoded_plain_cell:
  assumes "encode_test X_train clean = Some X_test"
    and "c \<in> set features" and "\<not> is_object (clean\<lparr>columns := features\<rparr>) c"
  shows "val X_test i c = val clean i c"
proof -
  let ?E = "get_dummies (clean\<lparr>columns := features\<rparr>)"
  have sub: "set features \<subseteq> set (columns clean)"
    using assms(1) by (auto simp add: encode_test_def select_columns_def split: if_splits)
  have x: "X_test = \<lparr>columns = columns X_train, index = index clean,
        val = (\<lambda>i c. if c \<in> set (columns ?E) then val ?E i c else Num 0)\<rparr>"
    using assms(1) encode_test_returns [OF sub, of X_train] by simp
  have p: "c \<in> set (filter (\<lambda>c. \<not> is_object (clean\<lparr>columns := features\<rparr>) c) features)"
    using assms(2,3) by simp
  then have "c \<in> set (columns ?E)" by (simp add: columns_get_dummies)
  moreover have "val ?E i c = val clean i c"
    using p by (simp add: get_dummies_def Let_def)
  ultimately show ?thesis by (simp add: x)
qed

text \<open>
  C10. The clean copy of the season-3 table consists of the rows of the full table
  without a missing value, under their own labels and with their own cells; no row is
  renumbered, and its labels are labels of the full table. The encoded table that the
  model scores has the same labels, a feature column without strings holds in row \<open>i\<close>
  the cell of the clean row \<open>i\<close>, and the probability the model gives to the encoded row
  \<open>i\<close> is written to row \<open>i\<close> of the file.
\<close>

theorem probabilities_stay_with_their_rows:
  assumes "notebook L b g year1 year2 year3 = Some out"
  shows "\<exists>clean X_train X_test.
     add_relative_pitch_height (snd (clean_season3 (read_csv year3))) = Some clean
     \<and> encode_test X_train clean = Some X_test
     \<and> index (fst (clean_season3 (read_csv year3))) = [0..<length (body year3)]
     \<and> index clean = filter (\<lambda>i. \<not> isna_any (fst (clean_season3 (read_csv year3))) i)
                        (index (fst (clean_season3 (read_csv year3))))
     \<and> set (index clean) \<subseteq> set (index (fst (clean_season3 (read_csv year3))))
     \<and> index X_test = index clean
     \<and> (\<forall>i \<in> set (index clean).
          (\<forall>c. c \<noteq> ''relative_pitch_height'' \<longrightarrow>
               val clean i c = val (fst (clean_season3 (read_csv year3))) i c)
          \<and> (\<forall>c \<in> set features. \<not> is_object (clean\<lparr>columns := features\<rparr>) c \<longrightarrow>
               val X_test i c = val clean i c)
          \<and> (\<exists>p. forest_proba L (best_model_pkl out) (row_values X_test i) = Some p \<and>
                cell_of_row (header (validation_csv out)) (body (validation_csv out) ! i)
                  ''SwingProbability'' = Num p))"
proof -
  let ?s3 = "fst (clean_season3 (read_csv year3))"
  let ?v = "validation_csv out"
  obtain clean X_train X_test where
    r: "add_relative_pitch_height (snd (clean_season3 (read_csv year3))) = Some clean"
    and e: "encode_test X_train clean = Some X_test"
    and s: "score_season3 L (best_model_pkl out) X_test ?s3 clean = Some ?v"
    using notebook_season3 [OF assms(1)] by blast
  note cells = validation_cells [OF r encode_test_Some(2) [OF e] s]
  have i3: "index ?s3 = [0..<length (body year3)]" by (simp add: full_season3_simps)
  have ic: "index clean = filter (\<lambda>i. \<not> isna_any ?s3 i) (index ?s3)"
    using cells(3) by (simp add: i3)
  have sub: "set (index clean) \<subseteq> set (index ?s3)" by (auto simp add: ic)
  have keep: "val clean i c = val ?s3 i c" if "c \<noteq> ''relative_pitch_height''" for i c
    using add_relative_pitch_height_Some(3) [OF r that]
    by (simp add: clean_season3_snd dropna_simps)
  have sp: "\<exists>p. forest_proba L (best_model_pkl out) (row_values X_test i) = Some p \<and>
                cell_of_row (header ?v) (body ?v ! i) ''SwingProbability'' = Num p"
    if "i \<in> set (index clean)" for i
  proof -
    have "i < length (body year3)" using that sub by (auto simp add: i3)
    from cells(4) [OF this that] show ?thesis .
  qed
  have "\<forall>i \<in> set (index clean).
          (\<forall>c. c \<noteq> ''relative_pitch_height'' \<longrightarrow> val clean i c = val ?s3 i c)
          \<and> (\<forall>c \<in> set features. \<not> is_object (clean\<lparr>columns := features\<rparr>) c \<longrightarrow>
               val X_test i c = val clean i c)
          \<and> (\<exists>p. forest_proba L (best_model_pkl out) (row_values X_test i) = Some p \<and>
                cell_of_row (header ?v) (body ?v ! i) ''SwingProbability'' = Num p)"
    using keep sp encoded_plain_cell [OF e] by blast
  then show ?thesis
    using r e i3 ic sub encode_test_Some(2) [OF e] by blast
qed

lemma season3_ex_complete_rows:
  "filter (\<lambda>i. \<not> isna_any (fst (clean_season3 (read_csv year3_ex))) i)
     (index (fst (clean_season3 (read_csv year3_ex)))) = [0, 2]"
  by code_simp

theorem probabilities_stay_with_their_rows_witness:
  "notebook lib_c1 True () year1_ex year2_ex year3_ex = Some out_ex
   \<and> (\<exists>X_test. index X_test = [0, 2]
        \<and> forest_proba lib_c1 (best_model_pkl out_ex) (row_values X_test 2) = Some (1 / 10)
        \<and> cell_of_row (header (validation_csv out_ex)) (body (validation_csv out_ex) ! 2)
             ''SwingProbability'' = Num (1 / 10))"
proof -
  obtain clean X_train X_test where
    ic: "index clean = filter (\<lambda>i. \<not> isna_any (fst (clean_season3 (read_csv year3_ex))) i)
                        (index (fst (clean_season3 (read_csv year3_ex))))"
    and ix: "index X_test = index clean"
    and rows: "\<forall>i \<in> set (index clean).
          (\<forall>c. c \<noteq> ''relative_pitch_height'' \<longrightarrow>
               val clean i c = val (fst (clean_season3 (read_csv year3_ex))) i c)
          \<and> (\<forall>c \<in> set features. \<not> is_object (clean\<lparr>columns := features\<rparr>) c \<longrightarrow>
               val X_test i c = val clean i c)
          \<and> (\<exists>p. forest_proba lib_c1 (best_model_pkl out_ex) (row_values X_test i) = Some p \<and>
                cell_of_row (header (validation_csv out_ex)) (body (validation_csv out_ex) ! i)
                  ''SwingProbability'' = Num p)"
    using probabilities_stay_with_their_rows [OF notebook_ex]
    by (elim exE conjE) (rule that, assumption+)
  have i: "index clean = [0, 2]" using ic season3_ex_complete_rows by simp
  have c: "cell_of_row (header (validation_csv out_ex)) (body (validation_csv out_ex) ! 2)
             ''SwingProbability'' = Num (1 / 10)"
    by (simp add: validation_ex pitch_header_def cell_of_row_def)
  obtain p where "forest_proba lib_c1 (best_model_pkl out_ex) (row_values X_test 2) = Some p"
    and "cell_of_row (header (validation_csv out_ex)) (body (validation_csv out_ex) ! 2)
           ''SwingProbability'' = Num p"
    using rows i by auto
  then have "forest_proba lib_c1 (best_model_pkl out_ex) (row_values X_test 2) = Some (1 / 10)"
    using c by simp
  then show ?thesis
    using notebook_ex ix i c by (intro conjI exI [of _ X_test]) simp_all
qed

lemma clean_ex_has_features: "set features \<subseteq> set (columns clean_ex)"
  unfolding clean_ex_def by code_simp

lemma X_train_ex_columns:
  "columns X_train_ex =
     [''release_speed'', ''plate_x'', ''pfx_x'', ''pfx_z'', ''balls'', ''strikes'',
      ''relative_pitch_height'', ''stand_R'', ''p_throws_R'', ''pitch_type_FF'',
      ''pitch_type_SL'']"
  unfolding X_train_ex_def by code_simp

lemma encoded_ex_columns:
  "''p_throws_R'' \<notin> set (columns (get_dummies (clean_ex\<lparr>columns := features\<rparr>)))"
  "''pitch_type_SW'' \<in> set (columns (get_dummies (clean_ex\<lparr>columns := features\<rparr>)))"
  unfolding clean_ex_def by code_simp+

theorem scoring_columns_match_training_witness:
  "set features \<subseteq> set (columns clean_ex)
   \<and> map_option columns (encode_test X_train_ex clean_ex) = Some (columns X_train_ex)
   \<and> ''p_throws_R'' \<in> set (columns X_train_ex)
   \<and> map_option (\<lambda>X. val X 0 ''p_throws_R'') (encode_test X_train_ex clean_ex) = Some (Num 0)
   \<and> ''pitch_type_SW'' \<notin> set (columns X_train_ex)
   \<and> map_option (\<lambda>X. length (columns X)) (encode_test X_train_ex clean_ex) = Some 11"
proof -
  obtain E X where
    e: "map_option get_dummies (select_columns clean_ex features) = Some E"
    and x: "encode_test X_train_ex clean_ex = Some X"
    and c: "columns X = columns X_train_ex"
    and z: "\<forall>c \<in> set (columns X_train_ex). \<forall>i.
                 (c \<notin> set (columns E) \<longrightarrow> val X i c = Num 0) \<and>
                 (c \<in> set (columns E) \<longrightarrow> val X i c = val E i c)"
    using scoring_columns_match_training [OF clean_ex_has_features, of X_train_ex] by blast
  have E: "E = get_dummies (clean_ex\<lparr>columns := features\<rparr>)"
    using e clean_ex_has_features by (simp add: select_columns_def)
  have m: "''p_throws_R'' \<in> set (columns X_train_ex)" "''pitch_type_SW'' \<notin> set (columns X_train_ex)"
    "length (columns X_train_ex) = 11"
    by (simp_all add: X_train_ex_columns)
  have "val X 0 ''p_throws_R'' = Num 0"
    using z m(1) encoded_ex_columns(1) E by blast
  then show ?thesis
    using clean_ex_has_features x c m by simp
qed

text \<open>The encoded season-3 column of a pitch type unseen in training is discarded.\<close>

lemma unseen_level_discarded:
  "''pitch_type_SW'' \<in> set (columns (get_dummies (clean_ex\<lparr>columns := features\<rparr>)))
   \<and> map_option (\<lambda>X. ''pitch_type_SW'' \<in> set (columns X)) (encode_test X_train_ex clean_ex)
       = Some False"
  using encode_test_returns [OF clean_ex_has_features, of X_train_ex] encoded_ex_columns(2)
  by (simp add: X_train_ex_columns)

theorem vif_is_diagnostic_witness:
  "map_option downstream
     (notebook (lib_c1\<lparr>variance_inflation_factor := (\<lambda>values i. Num 7)\<rparr>) False ()
        year1_ex year2_ex year3_ex) = Some (downstream out_ex)"
proof -
  have "lib_c1\<lparr>variance_inflation_factor := variance_inflation_factor lib_c1\<rparr> = lib_c1"
    by simp
  then show ?thesis
    using vif_is_diagnostic [where L = lib_c1 and ?v1.0 = "\<lambda>values i. Num 7" and ?b1.0 = False
        and g = "()" and ?y1.0 = year1_ex and ?y2.0 = year2_ex and ?y3.0 = year3_ex
        and ?v2.0 = "variance_inflation_factor lib_c1" and ?b2.0 = True]
    by (simp add: notebook_ex)
qed

end
